theory Spec2Isabelle
  imports Complex_Main "HOL-Library.Log_Nat"
begin

section \<open>JavaScript values and strings\<close>

text \<open>
  The program is TypeScript running on a JavaScript engine. The value parsed out of the
  generative service's text is untyped there (\<^verbatim>\<open>any\<close>), and the Blueprint the pipeline
  returns is an object literal that spreads that value. Both are therefore modelled as
  JavaScript values: an object is the list of its own properties in insertion order.
  A number is the rational value of a finite double: \<^verbatim>\<open>NaN\<close> and the infinities are not
  modelled. Arithmetic on numbers rounds, so it is an operation of the platform, not the
  arithmetic of the rationals. A \<open>string\<close> stands for the sequence of code units of a
  JavaScript string.
\<close>

datatype jsval =
    JUndefined
  | JNull
  | JBool bool
  | JNumber rat
  | JString string
  | JArray "jsval list"
  | JObject "(string \<times> jsval) list"

type_synonym jsobject = "(string \<times> jsval) list"

text \<open>ToBoolean, as applied by \<^verbatim>\<open>!x\<close>.\<close>

fun truthy :: "jsval \<Rightarrow> bool" where
  "truthy JUndefined = False"
| "truthy JNull = False"
| "truthy (JBool b) = b"
| "truthy (JNumber n) = (n \<noteq> 0)"
| "truthy (JString s) = (s \<noteq> [])"
| "truthy (JArray xs) = True"
| "truthy (JObject ps) = True"

fun isArray :: "jsval \<Rightarrow> bool" where
  "isArray (JArray xs) = True"
| "isArray v = False"

text \<open>
  Reading an own property of an object (\<^verbatim>\<open>o.k\<close>), \<^verbatim>\<open>undefined\<close> when absent; and
  writing one as an object literal does: an existing key keeps its place and takes the
  new value, a new key goes to the end.
\<close>

definition getProp :: "jsobject \<Rightarrow> string \<Rightarrow> jsval" where
  "getProp ps k = (case map_of ps k of None \<Rightarrow> JUndefined | Some v \<Rightarrow> v)"

fun setProp :: "string \<Rightarrow> jsval \<Rightarrow> jsobject \<Rightarrow> jsobject" where
  "setProp k v [] = [(k, v)]"
| "setProp k v (p # ps) = (if fst p = k then (k, v) # ps else p # setProp k v ps)"

text \<open>\<^verbatim>\<open>String.prototype.indexOf\<close> and \<^verbatim>\<open>lastIndexOf\<close> for a one-character pattern: \<open>-1\<close> when absent.\<close>

fun indexOf :: "string \<Rightarrow> char \<Rightarrow> int" where
  "indexOf [] c = -1"
| "indexOf (x # xs) c =
     (if x = c then 0 else (let r = indexOf xs c in if r = -1 then -1 else r + 1))"

fun lastIndexOf :: "string \<Rightarrow> char \<Rightarrow> int" where
  "lastIndexOf [] c = -1"
| "lastIndexOf (x # xs) c =
     (let r = lastIndexOf xs c in
      if r \<noteq> -1 then r + 1 else if x = c then 0 else -1)"

text \<open>
  \<^verbatim>\<open>String.prototype.substring(start, end)\<close>: both indices are clamped to the string and
  swapped when out of order.
\<close>

definition substring :: "string \<Rightarrow> int \<Rightarrow> int \<Rightarrow> string" where
  "substring s a b =
     (let n = int (length s);
          a' = min (max a 0) n;
          b' = min (max b 0) n;
          lo = min a' b';
          hi = max a' b'
      in take (nat (hi - lo)) (drop (nat lo) s))"

text \<open>\<^verbatim>\<open>String.prototype.split\<close> on a one-character separator, and \<^verbatim>\<open>xs[i]\<close> on an array.\<close>

fun split :: "string \<Rightarrow> char \<Rightarrow> string list" where
  "split [] sep = [[]]"
| "split (c # cs) sep =
     (if c = sep then [] # split cs sep
      else (case split cs sep of [] \<Rightarrow> [[c]] | w # ws \<Rightarrow> (c # w) # ws))"

definition at_index :: "'a list \<Rightarrow> nat \<Rightarrow> 'a option" where
  "at_index xs i = (if i < length xs then Some (xs ! i) else None)"

section \<open>Doubles\<close>

text \<open>
  The engine's numbers are IEEE 754 binary64 values. \<open>binary64\<close> rounds a rational to the
  nearest double, ties to the even significand, subnormals included; a result beyond the
  largest double, which the engine turns into \<^verbatim>\<open>Infinity\<close>, is not represented. The sum
  and the product of two doubles are the rounded exact results.
\<close>

definition pow2 :: "int \<Rightarrow> rat" where
  "pow2 k = (if 0 \<le> k then 2 ^ nat k else 1 / 2 ^ nat (- k))"

definition roundHalfEven :: "rat \<Rightarrow> int" where
  "roundHalfEven x =
     (let n = \<lfloor>x\<rfloor>; r = x - of_int n
      in if r < 1 / 2 then n else if 1 / 2 < r then n + 1 else if even n then n else n + 1)"

text \<open>The binary exponent of a positive rational: the \<open>e\<close> with \<open>2 ^ e \<le> x < 2 ^ (e + 1)\<close>.\<close>

definition exponentOf :: "rat \<Rightarrow> int" where
  "exponentOf x =
     (if 1 \<le> x then bitlen \<lfloor>x\<rfloor> - 1 else - bitlen (\<lceil>1 / x\<rceil> - 1))"

definition binary64 :: "rat \<Rightarrow> rat" where
  "binary64 x =
     (if x = 0 then 0
      else let e = max (exponentOf \<bar>x\<bar>) (- 1022);
               ulp = pow2 (e - 52)
           in sgn x * of_int (roundHalfEven (\<bar>x\<bar> / ulp)) * ulp)"

definition doubleAdd :: "rat \<Rightarrow> rat \<Rightarrow> rat" where
  "doubleAdd x y = binary64 (x + y)"

definition doubleMultiply :: "rat \<Rightarrow> rat \<Rightarrow> rat" where
  "doubleMultiply x y = binary64 (x * y)"

section \<open>Response repair\<close>

definition cleanJsonString :: "string \<Rightarrow> string" where
  "cleanJsonString str =
     (let firstBrace = indexOf str CHR ''{'';
          lastBrace = lastIndexOf str CHR ''}''
      in if firstBrace = -1 \<or> lastBrace = -1 \<or> lastBrace < firstBrace
         then ''{}''
         else substring str firstBrace (lastBrace + 1))"

section \<open>Data model\<close>

datatype LegoBuildSize = Micro | Medium | Large

text \<open>\<^verbatim>\<open>LegoBuildSize\<close> is a union of string literals; this is the string each member is.\<close>

fun sizeName :: "LegoBuildSize \<Rightarrow> string" where
  "sizeName Micro = ''Micro''"
| "sizeName Medium = ''Medium''"
| "sizeName Large = ''Large''"

datatype Availability = Available | Rare | CheckAlternatives

fun availabilityName :: "Availability \<Rightarrow> string" where
  "availabilityName Available = ''Available''"
| "availabilityName Rare = ''Rare''"
| "availabilityName CheckAlternatives = ''Check Alternatives''"

record LegoPart =
  pieceId :: string
  pieceName :: string
  color :: string
  quantity :: rat
  estimatedPrice :: rat

record ValidatedLegoPart = LegoPart +
  realPrice :: rat
  availability :: Availability
  brickLinkUrl :: string
  isAlternative :: "bool option"
  notes' :: "string option"

text \<open>
  A \<^verbatim>\<open>LegoBlueprint\<close> is an interface, that is, a compile-time view of a plain object:
  the pipeline builds it by spreading the parsed payload. A Blueprint is therefore the
  object itself.
\<close>

type_synonym LegoBlueprint = jsobject

text \<open>The object a \<^verbatim>\<open>ValidatedLegoPart\<close> is at run time (optional fields absent when unset).\<close>

definition jsValidatedLegoPart :: "ValidatedLegoPart \<Rightarrow> jsval" where
  "jsValidatedLegoPart p = JObject
     ([(''pieceId'', JString (pieceId p)),
       (''pieceName'', JString (pieceName p)),
       (''color'', JString (color p)),
       (''quantity'', JNumber (quantity p)),
       (''estimatedPrice'', JNumber (estimatedPrice p)),
       (''realPrice'', JNumber (realPrice p)),
       (''availability'', JString (availabilityName (availability p))),
       (''brickLinkUrl'', JString (brickLinkUrl p))]
      @ (case isAlternative p of None \<Rightarrow> [] | Some b \<Rightarrow> [(''isAlternative'', JBool b)])
      @ (case notes' p of None \<Rightarrow> [] | Some n \<Rightarrow> [(''notes'', JString n)]))"

text \<open>What is thrown or rejected: an \<^verbatim>\<open>Error\<close> with its message, or some other value.\<close>

datatype thrown = Error string | NonError

section \<open>The generative service and the platform\<close>

text \<open>
  The response of \<^verbatim>\<open>generateContent\<close>, as far as the pipeline reads it. Every level is
  optional, as the optional chaining in the source expects.
\<close>

record Blob =
  data :: "string option"
  mimeType :: "string option"

record Part =
  inlineData :: "Blob option"
  text' :: "string option"

record Content =
  parts :: "Part list option"

record Candidate =
  content :: "Content option"

record GenerateContentResponse =
  candidates :: "Candidate list option"

text \<open>
  The two instructions are long fixed texts that depend on the size only; they are kept
  symbolic, one constructor for each of the source's two prompt builders.
\<close>

datatype Prompt =
    createInitialImagePrompt LegoBuildSize
  | createPartsListPrompt LegoBuildSize

text \<open>
  A request carries one image and one instruction (the model name and the response
  modalities are the same constants in every call).
\<close>

record Request =
  requestImage :: Blob
  instruction :: Prompt

text \<open>
  What the code takes from outside: the environment variable, the generative service,
  \<^verbatim>\<open>JSON.parse\<close> (\<open>None\<close> when it throws), the pricing service
  \<^verbatim>\<open>validateAndPriceParts\<close>, which gets whatever value the Blueprint's
  \<^verbatim>\<open>partsList\<close> holds, and the engine's \<^verbatim>\<open>+\<close> and \<^verbatim>\<open>*\<close> on numbers.
\<close>

record Platform =
  API_KEY :: "string option"
  generateContent :: "Request \<Rightarrow> thrown + GenerateContentResponse"
  JSON_parse :: "string \<Rightarrow> jsval option"
  validateAndPriceParts :: "jsval \<Rightarrow> thrown + ValidatedLegoPart list"
  numberAdd :: "rat \<Rightarrow> rat \<Rightarrow> rat"
  numberMultiply :: "rat \<Rightarrow> rat \<Rightarrow> rat"

text \<open>\<^verbatim>\<open>response.candidates?.[0]?.content?.parts\<close>\<close>

definition firstCandidateParts :: "GenerateContentResponse \<Rightarrow> Part list option" where
  "firstCandidateParts response =
     (case candidates response of
        None \<Rightarrow> None
      | Some cs \<Rightarrow>
          (case at_index cs 0 of
             None \<Rightarrow> None
           | Some c \<Rightarrow> (case content c of None \<Rightarrow> None | Some ct \<Rightarrow> parts ct)))"

text \<open>An optional string in a condition, and inside a template literal.\<close>

fun truthyString :: "string option \<Rightarrow> bool" where
  "truthyString None = False"
| "truthyString (Some s) = (s \<noteq> [])"

fun interpolate :: "string option \<Rightarrow> string" where
  "interpolate None = ''undefined''"
| "interpolate (Some s) = s"

section \<open>Blueprint generation pipeline\<close>

text \<open>A decimal literal of the source that is not itself a double is the double nearest to it.\<close>

definition fallbackBlueprint :: jsobject where
  "fallbackBlueprint =
     [(''title'', JString ''My Custom Brick Model''),
      (''partsList'', JArray
         [JObject [(''pieceId'', JString ''3001''), (''pieceName'', JString ''2x4 Brick''),
                   (''color'', JString ''Red''), (''quantity'', JNumber 10),
                   (''estimatedPrice'', JNumber (binary64 0.12))],
          JObject [(''pieceId'', JString ''3002''), (''pieceName'', JString ''2x3 Brick''),
                   (''color'', JString ''Blue''), (''quantity'', JNumber 8),
                   (''estimatedPrice'', JNumber (binary64 0.10))],
          JObject [(''pieceId'', JString ''3003''), (''pieceName'', JString ''2x2 Brick''),
                   (''color'', JString ''Yellow''), (''quantity'', JNumber 15),
                   (''estimatedPrice'', JNumber (binary64 0.08))]]),
      (''totalPieces'', JNumber 33),
      (''estimatedCost'', JNumber 3.5),
      (''difficultyLevel'', JString ''Intermediate''),
      (''buildTime'', JString ''30-45 minutes''),
      (''description'', JString ''A creative brick model. The AI was unable to provide a detailed parts list, so this is an example breakdown.'')]"

text \<open>
  The pipeline returns the progress messages it sent to the sink, in order, and either
  what it threw or the Blueprint. In the \<^verbatim>\<open>try\<close> block a parsed value that is not an
  object never passes the check: reading a property of \<^verbatim>\<open>null\<close> throws, and every other
  value has no \<^verbatim>\<open>partsList\<close>; both end in the \<^verbatim>\<open>catch\<close>.
\<close>

definition generateLegoBlueprint ::
  "Platform \<Rightarrow> string \<Rightarrow> string \<Rightarrow> LegoBuildSize \<Rightarrow> string list \<times> (thrown + LegoBlueprint)" where
  "generateLegoBlueprint pf base64Image mimeType' initialSize =
     (if \<not> truthyString (API_KEY pf)
      then ([], Inl (Error ''API_KEY environment variable not set.''))
      else
        let base64Data = at_index (split base64Image CHR '','') 1;
            sent1 = [''Generating '' @ sizeName initialSize @ '' LEGO version...'']
        in case generateContent pf
                  \<lparr>requestImage = \<lparr>data = base64Data, mimeType = Some mimeType'\<rparr>,
                   instruction = createInitialImagePrompt initialSize\<rparr> of
             Inl e \<Rightarrow> (sent1, Inl e)
           | Inr imageGenResponse \<Rightarrow>
               let imageGenParts =
                     (case firstCandidateParts imageGenResponse of None \<Rightarrow> [] | Some ps \<Rightarrow> ps);
                   imagePart = find (\<lambda>part. inlineData part \<noteq> None) imageGenParts
               in case imagePart of
                    None \<Rightarrow>
                      (sent1, Inl (Error ''AI failed to generate a LEGO image. Please try a different image.''))
                  | Some part \<Rightarrow>
                     (case inlineData part of
                        None \<Rightarrow>
                          (sent1, Inl (Error ''AI failed to generate a LEGO image. Please try a different image.''))
                      | Some blob \<Rightarrow>
                          let legoImageData =
                                ''data:'' @ interpolate (mimeType blob) @ '';base64,'' @ interpolate (data blob);
                              legoImageBase64 = data blob;
                              legoImageMimeType = mimeType blob;
                              sent2 = sent1 @ [''Analyzing LEGO image for parts...'']
                          in case generateContent pf
                                    \<lparr>requestImage = \<lparr>data = legoImageBase64, mimeType = legoImageMimeType\<rparr>,
                                     instruction = createPartsListPrompt initialSize\<rparr> of
                               Inl e \<Rightarrow> (sent2, Inl e)
                             | Inr partsListResponse \<Rightarrow>
                                 let textPart =
                                       (case firstCandidateParts partsListResponse of
                                          None \<Rightarrow> None
                                        | Some ps \<Rightarrow> find (\<lambda>part. truthyString (text' part)) ps);
                                     fallbackResult =
                                       setProp ''size'' (JString (sizeName initialSize))
                                         (setProp ''legoImageData'' (JString legoImageData) fallbackBlueprint)
                                 in (sent2, Inr
                                      (case textPart of
                                         None \<Rightarrow> fallbackResult
                                       | Some textPart' \<Rightarrow>
                                          (case text' textPart' of
                                             None \<Rightarrow> fallbackResult
                                           | Some t \<Rightarrow>
                                             if t = [] then fallbackResult
                                             else
                                             (case JSON_parse pf (cleanJsonString t) of
                                                None \<Rightarrow> fallbackResult
                                              | Some (JObject parsedJson) \<Rightarrow>
                                                  if \<not> truthy (getProp parsedJson ''partsList'')
                                                     \<or> \<not> isArray (getProp parsedJson ''partsList'')
                                                     \<or> \<not> truthy (getProp parsedJson ''title'')
                                                  then fallbackResult
                                                  else setProp ''size'' (JString (sizeName initialSize))
                                                         (setProp ''legoImageData'' (JString legoImageData) parsedJson)
                                              | Some _ \<Rightarrow> fallbackResult))))))"

definition resizeLegoBlueprint ::
  "Platform \<Rightarrow> string \<Rightarrow> string \<Rightarrow> LegoBuildSize \<Rightarrow> string list \<times> (thrown + LegoBlueprint)" where
  "resizeLegoBlueprint pf originalBase64Image originalMimeType targetSize =
     (if \<not> truthyString (API_KEY pf)
      then ([], Inl (Error ''API_KEY environment variable not set.''))
      else
        let originalBase64Data = at_index (split originalBase64Image CHR '','') 1;
            sent1 = [''Generating '' @ sizeName targetSize @ '' version...'']
        in case generateContent pf
                  \<lparr>requestImage = \<lparr>data = originalBase64Data, mimeType = Some originalMimeType\<rparr>,
                   instruction = createInitialImagePrompt targetSize\<rparr> of
             Inl e \<Rightarrow> (sent1, Inl e)
           | Inr imageGenResponse \<Rightarrow>
               let imageGenParts =
                     (case firstCandidateParts imageGenResponse of None \<Rightarrow> [] | Some ps \<Rightarrow> ps);
                   imagePart = find (\<lambda>part. inlineData part \<noteq> None) imageGenParts
               in case imagePart of
                    None \<Rightarrow>
                      (sent1, Inl (Error (''AI failed to generate the '' @ sizeName targetSize @ '' LEGO image.'')))
                  | Some part \<Rightarrow>
                     (case inlineData part of
                        None \<Rightarrow>
                          (sent1, Inl (Error (''AI failed to generate the '' @ sizeName targetSize @ '' LEGO image.'')))
                      | Some blob \<Rightarrow>
                          let legoImageData =
                                ''data:'' @ interpolate (mimeType blob) @ '';base64,'' @ interpolate (data blob);
                              legoImageBase64 = data blob;
                              legoImageMimeType = mimeType blob;
                              sent2 = sent1 @ [''Analyzing new image for parts...'']
                          in case generateContent pf
                                    \<lparr>requestImage = \<lparr>data = legoImageBase64, mimeType = legoImageMimeType\<rparr>,
                                     instruction = createPartsListPrompt targetSize\<rparr> of
                               Inl e \<Rightarrow> (sent2, Inl e)
                             | Inr partsListResponse \<Rightarrow>
                                 let textPart =
                                       (case firstCandidateParts partsListResponse of
                                          None \<Rightarrow> None
                                        | Some ps \<Rightarrow> find (\<lambda>part. truthyString (text' part)) ps);
                                     fallbackResult =
                                       setProp ''size'' (JString (sizeName targetSize))
                                         (setProp ''legoImageData'' (JString legoImageData) fallbackBlueprint)
                                 in (sent2, Inr
                                      (case textPart of
                                         None \<Rightarrow> fallbackResult
                                       | Some textPart' \<Rightarrow>
                                          (case text' textPart' of
                                             None \<Rightarrow> fallbackResult
                                           | Some t \<Rightarrow>
                                             if t = [] then fallbackResult
                                             else
                                             (case JSON_parse pf (cleanJsonString t) of
                                                None \<Rightarrow> fallbackResult
                                              | Some (JObject parsedJson) \<Rightarrow>
                                                  if \<not> truthy (getProp parsedJson ''partsList'')
                                                     \<or> \<not> isArray (getProp parsedJson ''partsList'')
                                                     \<or> \<not> truthy (getProp parsedJson ''title'')
                                                  then fallbackResult
                                                  else setProp ''size'' (JString (sizeName targetSize))
                                                         (setProp ''legoImageData'' (JString legoImageData) parsedJson)
                                              | Some _ \<Rightarrow> fallbackResult))))))"

section \<open>Session: conversion and the list of versions\<close>

text \<open>
  A \<^verbatim>\<open>File\<close> is its MIME type and what \<^verbatim>\<open>FileReader.readAsDataURL\<close> yields for it
  (\<open>None\<close> when reading fails; the promise is then rejected with the reader's event, which
  is not an \<^verbatim>\<open>Error\<close>).
\<close>

record File =
  type' :: string
  dataURL :: "string option"

definition fileToBase64 :: "File \<Rightarrow> thrown + string" where
  "fileToBase64 file = (case dataURL file of None \<Rightarrow> Inl NonError | Some url \<Rightarrow> Inr url)"

record AppState =
  selectedFile :: "File option"
  legoBlueprint :: "LegoBlueprint option"
  isLoading :: bool
  isDemoLoading :: bool
  progressMessage :: string
  error :: "string option"
  selectedSize :: LegoBuildSize

text \<open>The body of the \<^verbatim>\<open>try\<close> block of \<^verbatim>\<open>handleConvertClick\<close>: what it throws, or the Blueprint it stores.\<close>

definition handleConvertClick_try :: "Platform \<Rightarrow> File \<Rightarrow> LegoBuildSize \<Rightarrow> thrown + LegoBlueprint" where
  "handleConvertClick_try pf file size' =
     (case fileToBase64 file of
        Inl e \<Rightarrow> Inl e
      | Inr base64Image \<Rightarrow>
          (case snd (generateLegoBlueprint pf base64Image (type' file) size') of
             Inl e \<Rightarrow> Inl e
           | Inr initialBlueprint \<Rightarrow>
               (case validateAndPriceParts pf (getProp initialBlueprint ''partsList'') of
                  Inl e \<Rightarrow> Inl e
                | Inr validatedParts \<Rightarrow>
                    let realTotalCost =
                          foldl (\<lambda>sum part. numberAdd pf sum (numberMultiply pf (realPrice part) (quantity part)))
                            0 validatedParts
                    in Inr (setProp ''realTotalCost'' (JNumber realTotalCost)
                              (setProp ''validatedParts'' (JArray (map jsValidatedLegoPart validatedParts))
                                 initialBlueprint)))))"

definition handleConvertClick :: "Platform \<Rightarrow> AppState \<Rightarrow> AppState" where
  "handleConvertClick pf st =
     (case selectedFile st of
        None \<Rightarrow> st
      | Some file \<Rightarrow>
          let st1 = st\<lparr>isLoading := True, error := None, legoBlueprint := None\<rparr>;
              st2 = (case handleConvertClick_try pf file (selectedSize st) of
                       Inr enhancedBlueprint \<Rightarrow>
                         st1\<lparr>progressMessage := ''Complete!'', legoBlueprint := Some enhancedBlueprint\<rparr>
                     | Inl (Error message) \<Rightarrow> st1\<lparr>error := Some message\<rparr>
                     | Inl NonError \<Rightarrow>
                         st1\<lparr>error := Some ''An unknown error occurred. Please try again.''\<rparr>)
          in st2\<lparr>isLoading := False, progressMessage := []\<rparr>)"

record LegoResultState =
  blueprints :: "LegoBlueprint list"
  currentIndex :: nat
  isResizing :: bool
  resizeProgress :: string
  resizeError :: "string option"

text \<open>The state of a \<^verbatim>\<open>LegoResult\<close> component when it is mounted with \<^verbatim>\<open>initialBlueprint\<close>.\<close>

definition LegoResult_mount :: "LegoBlueprint \<Rightarrow> LegoResultState" where
  "LegoResult_mount initialBlueprint =
     \<lparr>blueprints = [initialBlueprint], currentIndex = 0, isResizing = False,
      resizeProgress = [], resizeError = None\<rparr>"

definition handleResize_try :: "Platform \<Rightarrow> File \<Rightarrow> LegoBuildSize \<Rightarrow> thrown + LegoBlueprint" where
  "handleResize_try pf originalImage targetSize =
     (case fileToBase64 originalImage of
        Inl e \<Rightarrow> Inl e
      | Inr originalBase64Image \<Rightarrow>
          (case snd (resizeLegoBlueprint pf originalBase64Image (type' originalImage) targetSize) of
             Inl e \<Rightarrow> Inl e
           | Inr newBlueprint \<Rightarrow>
               (case validateAndPriceParts pf (getProp newBlueprint ''partsList'') of
                  Inl e \<Rightarrow> Inl e
                | Inr validatedParts \<Rightarrow>
                    let realTotalCost =
                          foldl (\<lambda>sum part. numberAdd pf sum (numberMultiply pf (realPrice part) (quantity part)))
                            0 validatedParts
                    in Inr (setProp ''realTotalCost'' (JNumber realTotalCost)
                              (setProp ''validatedParts'' (JArray (map jsValidatedLegoPart validatedParts))
                                 newBlueprint)))))"

text \<open>
  \<^verbatim>\<open>handleResize\<close> is a closure over the state of the render that created it
  (\<open>rendered\<close>): it reads \<^verbatim>\<open>isResizing\<close> and \<^verbatim>\<open>blueprints.length\<close> from there. Its state
  updates apply to the component's state when it runs (\<open>live\<close>), where
  \<^verbatim>\<open>setBlueprints(prev => ...)\<close> appends to the list as it then is. The result is the state
  after the \<^verbatim>\<open>finally\<close> block.
\<close>

definition handleResize ::
  "Platform \<Rightarrow> File option \<Rightarrow> LegoResultState \<Rightarrow> LegoBuildSize \<Rightarrow> LegoResultState \<Rightarrow> LegoResultState" where
  "handleResize pf originalImage rendered targetSize live =
     (if isResizing rendered then live
      else case originalImage of
        None \<Rightarrow> live
      | Some file \<Rightarrow>
            let st1 = live\<lparr>isResizing := True, resizeError := None\<rparr>;
                st2 = (case handleResize_try pf file targetSize of
                         Inr enhancedBlueprint \<Rightarrow>
                           st1\<lparr>resizeProgress := ''Validating new parts...'',
                               blueprints := blueprints st1 @ [enhancedBlueprint],
                               currentIndex := length (blueprints rendered)\<rparr>
                       | Inl (Error message) \<Rightarrow> st1\<lparr>resizeError := Some message\<rparr>
                       | Inl NonError \<Rightarrow>
                           st1\<lparr>resizeError := Some ''An unknown error occurred during resize.''\<rparr>)
            in st2\<lparr>isResizing := False, resizeProgress := []\<rparr>)"

text \<open>The size buttons: \<^verbatim>\<open>blueprints.some(bp => bp.size === size)\<close> disables one.\<close>

definition isGenerated :: "LegoResultState \<Rightarrow> LegoBuildSize \<Rightarrow> bool" where
  "isGenerated st size' =
     list_ex (\<lambda>bp. getProp bp ''size'' = JString (sizeName size')) (blueprints st)"

text \<open>The version buttons of the visualizer call \<^verbatim>\<open>setCurrentIndex(index)\<close>; \<^verbatim>\<open>blueprints[currentIndex]\<close> is shown.\<close>

definition setCurrentIndex :: "nat \<Rightarrow> LegoResultState \<Rightarrow> LegoResultState" where
  "setCurrentIndex index st = st\<lparr>currentIndex := index\<rparr>"

definition currentBlueprint :: "LegoResultState \<Rightarrow> LegoBlueprint option" where
  "currentBlueprint st = at_index (blueprints st) (currentIndex st)"

text \<open>
  \<^verbatim>\<open>App\<close> renders \<^verbatim>\<open>LegoResult\<close>, with \<^verbatim>\<open>originalImage={selectedFile}\<close>, exactly when it
  holds a Blueprint and is not loading; a session is the state of both components.
\<close>

record Session =
  app :: AppState
  legoResult :: LegoResultState

definition Ready :: "AppState \<Rightarrow> bool" where
  "Ready a = (legoBlueprint a \<noteq> None \<and> \<not> isLoading a)"

definition Session_handleResize :: "Platform \<Rightarrow> LegoBuildSize \<Rightarrow> Session \<Rightarrow> Session" where
  "Session_handleResize pf targetSize s =
     s\<lparr>legoResult := handleResize pf (selectedFile (app s)) (legoResult s) targetSize (legoResult s)\<rparr>"

text \<open>
  The states of the version list that the user interface reaches: the component is mounted
  with the Blueprint a conversion stored; a version button selects an existing version; an
  enabled size button (not resizing, size not generated yet) runs \<^verbatim>\<open>handleResize\<close> from the
  current render, one run at a time.
\<close>

inductive reachable :: "LegoResultState \<Rightarrow> bool" where
  mount: "legoBlueprint (handleConvertClick pf a) = Some bp \<Longrightarrow> reachable (LegoResult_mount bp)"
| select: "reachable st \<Longrightarrow> index < length (blueprints st) \<Longrightarrow> reachable (setCurrentIndex index st)"
| resize: "reachable st \<Longrightarrow> \<not> isResizing st \<Longrightarrow> \<not> isGenerated st size' \<Longrightarrow>
           reachable (handleResize pf originalImage st size' st)"

definition sizesDistinct :: "LegoBlueprint list \<Rightarrow> bool" where
  "sizesDistinct bps = distinct (map (\<lambda>bp. getProp bp ''size'') bps)"

section \<open>Rendering the current version\<close>

text \<open>
  \<^verbatim>\<open>LegoResult\<close> renders \<^verbatim>\<open>PartsBreakdown\<close> for \<^verbatim>\<open>blueprints[currentIndex]\<close> on every
  render. The functions below say whether that render returns or throws. React accepts
  a string, a number, a boolean, \<^verbatim>\<open>null\<close>, \<^verbatim>\<open>undefined\<close> or an array of these as a child
  and throws on a plain object; \<^verbatim>\<open>x.toFixed(2)\<close> throws unless \<^verbatim>\<open>x\<close> is a number;
  reading a property of \<^verbatim>\<open>null\<close> or \<^verbatim>\<open>undefined\<close> throws; calling \<^verbatim>\<open>some\<close> or \<^verbatim>\<open>map\<close> on a
  value that is not an array throws. \<^verbatim>\<open>LegoVisualizer\<close> only reads \<^verbatim>\<open>legoImageData\<close> and
  \<^verbatim>\<open>size\<close> into attributes and template strings, which does not throw.
\<close>

fun validChild :: "jsval \<Rightarrow> bool" where
  "validChild (JObject ps) = False"
| "validChild (JArray xs) = list_all validChild xs"
| "validChild v = True"

fun hasToFixed :: "jsval \<Rightarrow> bool" where
  "hasToFixed (JNumber n) = True"
| "hasToFixed v = False"

text \<open>\<^verbatim>\<open>PartItem\<close>, for one element of \<^verbatim>\<open>validatedParts\<close>.\<close>

fun PartItem_renders :: "jsval \<Rightarrow> bool" where
  "PartItem_renders (JObject part) =
     (validChild (getProp part ''quantity'')
      \<and> validChild (getProp part ''pieceName'')
      \<and> validChild (getProp part ''pieceId'')
      \<and> validChild (getProp part ''color'')
      \<and> (if truthy (getProp part ''notes'') then validChild (getProp part ''notes'') else True)
      \<and> hasToFixed (getProp part ''realPrice''))"
| "PartItem_renders v = False"

definition PartsBreakdown_renders :: "LegoBlueprint \<Rightarrow> bool" where
  "PartsBreakdown_renders blueprint =
     ((case getProp blueprint ''validatedParts'' of
         JUndefined \<Rightarrow> True
       | JNull \<Rightarrow> True
       | JArray validatedParts \<Rightarrow> list_all PartItem_renders validatedParts
       | _ \<Rightarrow> False)
      \<and> validChild (getProp blueprint ''title'')
      \<and> validChild (getProp blueprint ''description'')
      \<and> validChild (getProp blueprint ''totalPieces'')
      \<and> validChild (getProp blueprint ''difficultyLevel'')
      \<and> hasToFixed (getProp blueprint ''estimatedCost'')
      \<and> (case getProp blueprint ''realTotalCost'' of
            JUndefined \<Rightarrow> True
          | JNull \<Rightarrow> True
          | realTotalCost \<Rightarrow> hasToFixed realTotalCost)
      \<and> validChild (getProp blueprint ''buildTime''))"

definition LegoResult_renders :: "LegoResultState \<Rightarrow> bool" where
  "LegoResult_renders st =
     (case at_index (blueprints st) (currentIndex st) of
        None \<Rightarrow> False
      | Some blueprint \<Rightarrow> PartsBreakdown_renders blueprint)"

text \<open>
  React renders the component again after a state update. None of the components is an
  error boundary, so when the render throws React unmounts the tree: the version list
  and its buttons are gone (\<open>None\<close>).
\<close>

definition LegoResult_commit :: "LegoResultState \<Rightarrow> LegoResultState option" where
  "LegoResult_commit st = (if LegoResult_renders st then Some st else None)"

section \<open>Parts validation engine\<close>

text \<open>
  Modelled from the spec: \<^verbatim>\<open>validateAndPriceParts\<close> of \<^verbatim>\<open>services/bricklinkService\<close> is
  imported by the sources but is not among them. The spec's section 4.1 gives its
  contract: each part is resolved against the pricing authority by \<^verbatim>\<open>pieceId\<close> and
  \<^verbatim>\<open>color\<close>, with one of four outcomes; a lookup that fails degrades to the no-match
  policy; the result has one entry per input part. The authority, the lookup reference of
  a part and the wording of the notes are not fixed by the spec: the first two are
  parameters here.
\<close>

datatype Resolution =
    InStock rat
  | LimitedStock rat
  | Substitute string rat
  | NoMatch

type_synonym Authority = "string \<Rightarrow> string \<Rightarrow> thrown + Resolution"

definition validatePart :: "Authority \<Rightarrow> (LegoPart \<Rightarrow> string) \<Rightarrow> LegoPart \<Rightarrow> ValidatedLegoPart" where
  "validatePart authority reference part =
     (let resolution = (case authority (pieceId part) (color part) of
                          Inl e \<Rightarrow> NoMatch
                        | Inr r \<Rightarrow> r)
      in case resolution of
           InStock price \<Rightarrow>
             LegoPart.extend part
               (ValidatedLegoPart.fields price Available (reference part) None None)
         | LimitedStock price \<Rightarrow>
             LegoPart.extend part
               (ValidatedLegoPart.fields price Rare (reference part) None (Some ''Limited stock''))
         | Substitute name price \<Rightarrow>
             LegoPart.extend part
               (ValidatedLegoPart.fields price CheckAlternatives (reference part) (Some True)
                  (Some (''Substituted with '' @ name @ '', an approximation'')))
         | NoMatch \<Rightarrow>
             LegoPart.extend part
               (ValidatedLegoPart.fields (estimatedPrice part) CheckAlternatives (reference part) None
                  (Some ''No authoritative match found; the price is an estimate'')))"

definition validate :: "Authority \<Rightarrow> (LegoPart \<Rightarrow> string) \<Rightarrow> LegoPart list \<Rightarrow> ValidatedLegoPart list" where
  "validate authority reference partsList = map (validatePart authority reference) partsList"

section \<open>Notions used to state the properties\<close>

text \<open>
  The two requests of a pipeline run, the first inline image payload and the textual
  payload of a response, the data URL of an image payload, and the fixed fallback
  Blueprint completed with an image and a size.
\<close>

definition imageRequest :: "string \<Rightarrow> string \<Rightarrow> LegoBuildSize \<Rightarrow> Request" where
  "imageRequest base64Image mimeType' size' =
     \<lparr>requestImage = \<lparr>data = at_index (split base64Image CHR '','') 1, mimeType = Some mimeType'\<rparr>,
      instruction = createInitialImagePrompt size'\<rparr>"

definition partsRequest :: "Blob \<Rightarrow> LegoBuildSize \<Rightarrow> Request" where
  "partsRequest blob size' =
     \<lparr>requestImage = \<lparr>data = data blob, mimeType = mimeType blob\<rparr>,
      instruction = createPartsListPrompt size'\<rparr>"

definition inlineImage :: "GenerateContentResponse \<Rightarrow> Blob option" where
  "inlineImage response =
     (case firstCandidateParts response of
        None \<Rightarrow> None
      | Some ps \<Rightarrow>
          (case find (\<lambda>part. inlineData part \<noteq> None) ps of
             None \<Rightarrow> None
           | Some part \<Rightarrow> inlineData part))"

definition textualPayload :: "GenerateContentResponse \<Rightarrow> string option" where
  "textualPayload response =
     (case firstCandidateParts response of
        None \<Rightarrow> None
      | Some ps \<Rightarrow>
          (case find (\<lambda>part. truthyString (text' part)) ps of
             None \<Rightarrow> None
           | Some part \<Rightarrow> text' part))"

definition dataUrl :: "Blob \<Rightarrow> string" where
  "dataUrl blob = ''data:'' @ interpolate (mimeType blob) @ '';base64,'' @ interpolate (data blob)"

definition fallbackWith :: "string \<Rightarrow> LegoBuildSize \<Rightarrow> LegoBlueprint" where
  "fallbackWith legoImageData size' =
     setProp ''size'' (JString (sizeName size'))
       (setProp ''legoImageData'' (JString legoImageData) fallbackBlueprint)"

text \<open>A parsed value has a parts list and a title, as the check in the \<^verbatim>\<open>try\<close> block reads them.\<close>

fun hasPartsListAndTitle :: "jsval \<Rightarrow> bool" where
  "hasPartsListAndTitle (JObject ps) =
     (isArray (getProp ps ''partsList'') \<and> truthy (getProp ps ''title''))"
| "hasPartsListAndTitle v = False"

text \<open>The same with the parts list required to be non-empty, as the specification words it.\<close>

fun hasNonEmptyPartsListAndTitle :: "jsval \<Rightarrow> bool" where
  "hasNonEmptyPartsListAndTitle (JObject ps) =
     ((case getProp ps ''partsList'' of JArray xs \<Rightarrow> xs \<noteq> [] | _ \<Rightarrow> False)
      \<and> truthy (getProp ps ''title''))"
| "hasNonEmptyPartsListAndTitle v = False"

text \<open>
  The sum over a list of validated parts of \<^verbatim>\<open>realPrice * quantity\<close>, taken from the left
  in the engine's arithmetic; and the condition that on this list every product and every
  addition is exact, so that nothing is rounded.
\<close>

fun engineSum :: "Platform \<Rightarrow> rat \<Rightarrow> ValidatedLegoPart list \<Rightarrow> rat" where
  "engineSum pf subtotal [] = subtotal"
| "engineSum pf subtotal (part # rest) =
     engineSum pf (numberAdd pf subtotal (numberMultiply pf (realPrice part) (quantity part))) rest"

fun exactlyComputed :: "Platform \<Rightarrow> rat \<Rightarrow> ValidatedLegoPart list \<Rightarrow> bool" where
  "exactlyComputed pf subtotal [] = True"
| "exactlyComputed pf subtotal (part # rest) =
     (numberMultiply pf (realPrice part) (quantity part) = realPrice part * quantity part
      \<and> numberAdd pf subtotal (realPrice part * quantity part) = subtotal + realPrice part * quantity part
      \<and> exactlyComputed pf (subtotal + realPrice part * quantity part) rest)"

section \<open>Concrete runs\<close>

text \<open>
  A small world to run the code in: a JPEG upload, a service that answers the image
  request with \<open>imageAnswer\<close> and the parts request with the text \<open>t\<close>, the results of
  \<^verbatim>\<open>JSON.parse\<close> on the texts used below, and a pricing service that prices every part
  of a list as the same brick. Its arithmetic is that of doubles, and every number in it
  is a double.
\<close>

definition demoFile :: File where
  "demoFile = \<lparr>type' = ''image/jpeg'', dataURL = Some ''data:image/jpeg;base64,/9j/4AAQ''\<rparr>"

definition demoImage :: Blob where
  "demoImage = \<lparr>data = Some ''iVBORw0KGgo='', mimeType = Some ''image/png''\<rparr>"

definition imageResponse :: GenerateContentResponse where
  "imageResponse =
     \<lparr>candidates = Some [\<lparr>content = Some \<lparr>parts = Some
        [\<lparr>inlineData = None, text' = Some ''Here is your model.''\<rparr>,
         \<lparr>inlineData = Some demoImage, text' = None\<rparr>]\<rparr>\<rparr>]\<rparr>"

definition textResponse :: "string \<Rightarrow> GenerateContentResponse" where
  "textResponse t =
     \<lparr>candidates = Some [\<lparr>content = Some \<lparr>parts = Some [\<lparr>inlineData = None, text' = Some t\<rparr>]\<rparr>\<rparr>]\<rparr>"

definition demoService ::
  "GenerateContentResponse \<Rightarrow> string \<Rightarrow> Request \<Rightarrow> thrown + GenerateContentResponse" where
  "demoService imageAnswer t request =
     (case instruction request of
        createInitialImagePrompt s \<Rightarrow> Inr imageAnswer
      | createPartsListPrompt s \<Rightarrow> Inr (textResponse t))"

definition proseWithObject :: string where
  \<open>proseWithObject = ''Sorry, here: {"title":"T","partsList":[{"pieceId":"1","pieceName":"P","color":"C","quantity":1,"estimatedPrice":1}]} extra''\<close>

definition objectText :: string where
  \<open>objectText = ''{"title":"T","partsList":[{"pieceId":"1","pieceName":"P","color":"C","quantity":1,"estimatedPrice":1}]}''\<close>

definition objectValue :: jsval where
  "objectValue = JObject
     [(''title'', JString ''T''),
      (''partsList'', JArray [JObject
         [(''pieceId'', JString ''1''), (''pieceName'', JString ''P''), (''color'', JString ''C''),
          (''quantity'', JNumber 1), (''estimatedPrice'', JNumber 1)]])]"

definition emptyPartsText :: string where
  \<open>emptyPartsText = ''{"title":"T","partsList":[]}''\<close>

definition emptyPartsValue :: jsval where
  "emptyPartsValue = JObject [(''title'', JString ''T''), (''partsList'', JArray [])]"

definition echoText :: string where
  \<open>echoText = ''{"title":"T","partsList":[],"size":"Large","legoImageData":"stale","realTotalCost":5}''\<close>

definition echoValue :: jsval where
  "echoValue = JObject
     [(''title'', JString ''T''), (''partsList'', JArray []), (''size'', JString ''Large''),
      (''legoImageData'', JString ''stale''), (''realTotalCost'', JNumber 5)]"

definition demoParse :: "string \<Rightarrow> jsval option" where
  "demoParse s =
     (if s = ''{}'' then Some (JObject [])
      else if s = objectText then Some objectValue
      else if s = emptyPartsText then Some emptyPartsValue
      else if s = echoText then Some echoValue
      else None)"

definition demoBrick :: ValidatedLegoPart where
  "demoBrick =
     \<lparr>pieceId = ''3001'', pieceName = ''2x4 Brick'', color = ''Red'', quantity = 2,
      estimatedPrice = 0.125, realPrice = 0.5, availability = Available,
      brickLinkUrl = ''https://www.bricklink.com/v2/catalog/catalogitem.page?P=3001'',
      isAlternative = None, notes' = None\<rparr>"

definition demoPricing :: "jsval \<Rightarrow> thrown + ValidatedLegoPart list" where
  "demoPricing v =
     (case v of
        JArray xs \<Rightarrow> Inr (map (\<lambda>x. demoBrick) xs)
      | _ \<Rightarrow> Inl (Error ''partsList is not a list''))"

definition demoPlatform :: "GenerateContentResponse \<Rightarrow> string \<Rightarrow> Platform" where
  "demoPlatform imageAnswer t =
     \<lparr>API_KEY = Some ''key'', generateContent = demoService imageAnswer t,
      JSON_parse = demoParse, validateAndPriceParts = demoPricing,
      numberAdd = doubleAdd, numberMultiply = doubleMultiply\<rparr>"

text \<open>
  The Blueprint the pipeline returns for \<open>proseWithObject\<close> at a given size, the same
  after validation by \<open>demoPricing\<close> (one brick, twice, at 0.5), and a session: the
  application with the upload selected, and the version list after its conversion and
  after one more resize to \<^verbatim>\<open>Large\<close>.
\<close>

definition objectBlueprint :: "LegoBuildSize \<Rightarrow> LegoBlueprint" where
  "objectBlueprint size' =
     [(''title'', JString ''T''),
      (''partsList'', JArray [JObject
         [(''pieceId'', JString ''1''), (''pieceName'', JString ''P''), (''color'', JString ''C''),
          (''quantity'', JNumber 1), (''estimatedPrice'', JNumber 1)]]),
      (''legoImageData'', JString ''data:image/png;base64,iVBORw0KGgo=''),
      (''size'', JString (sizeName size'))]"

definition pricedObjectBlueprint :: "LegoBuildSize \<Rightarrow> LegoBlueprint" where
  "pricedObjectBlueprint size' =
     objectBlueprint size'
     @ [(''validatedParts'', JArray [jsValidatedLegoPart demoBrick]),
        (''realTotalCost'', JNumber 1)]"

definition demoApp :: AppState where
  "demoApp =
     \<lparr>selectedFile = Some demoFile, legoBlueprint = None, isLoading = False,
      isDemoLoading = False, progressMessage = [], error = None, selectedSize = Medium\<rparr>"

definition demoStore :: LegoResultState where
  "demoStore = LegoResult_mount (pricedObjectBlueprint Medium)"

definition demoStore2 :: LegoResultState where
  "demoStore2 =
     handleResize (demoPlatform imageResponse proseWithObject) (Some demoFile) demoStore Large demoStore"

text \<open>
  Three more runs: the parts call is rejected by the service; the pricing service returns
  one part at a price of 0.1 (the double nearest to it), three times; and a session whose
  first version is the priced fallback Blueprint, which renders.
\<close>

definition rejectingPartsService :: "Request \<Rightarrow> thrown + GenerateContentResponse" where
  "rejectingPartsService request =
     (case instruction request of
        createInitialImagePrompt s \<Rightarrow> Inr imageResponse
      | createPartsListPrompt s \<Rightarrow> Inl (Error ''503 Service Unavailable''))"

definition rejectingPartsPlatform :: Platform where
  "rejectingPartsPlatform =
     (demoPlatform imageResponse proseWithObject)\<lparr>generateContent := rejectingPartsService\<rparr>"

definition dime :: ValidatedLegoPart where
  "dime =
     \<lparr>pieceId = ''3024'', pieceName = ''1x1 Plate'', color = ''White'', quantity = 3,
      estimatedPrice = 0.125, realPrice = 3602879701896397 / 36028797018963968,
      availability = Available,
      brickLinkUrl = ''https://www.bricklink.com/v2/catalog/catalogitem.page?P=3024'',
      isAlternative = None, notes' = None\<rparr>"

definition dimePricing :: "jsval \<Rightarrow> thrown + ValidatedLegoPart list" where
  "dimePricing v = Inr [dime]"

definition dimePlatform :: Platform where
  "dimePlatform =
     (demoPlatform imageResponse proseWithObject)\<lparr>validateAndPriceParts := dimePricing\<rparr>"

definition fallbackVersion :: LegoBlueprint where
  "fallbackVersion =
     fallbackWith ''data:image/png;base64,iVBORw0KGgo='' Medium
     @ [(''validatedParts'', JArray [jsValidatedLegoPart demoBrick, jsValidatedLegoPart demoBrick,
                                     jsValidatedLegoPart demoBrick]),
        (''realTotalCost'', JNumber 3)]"

definition readyStore :: LegoResultState where
  "readyStore = LegoResult_mount fallbackVersion"

section \<open>Facts about the string and object operations\<close>

lemma indexOf_ge: "- 1 \<le> indexOf s c"
  by (induction s) (auto simp: Let_def)

lemma lastIndexOf_ge: "- 1 \<le> lastIndexOf s c"
  by (induction s) (auto simp: Let_def)

lemma indexOf_none: "indexOf s c = - 1 \<longleftrightarrow> c \<notin> set s"
proof (induction s)
  case Nil
  show ?case by simp
next
  case (Cons x xs)
  from indexOf_ge [of xs c] have "indexOf xs c + 1 \<noteq> - 1" by arith
  with Cons show ?case by (auto simp: Let_def)
qed

lemma lastIndexOf_none: "lastIndexOf s c = - 1 \<longleftrightarrow> c \<notin> set s"
proof (induction s)
  case Nil
  show ?case by simp
next
  case (Cons x xs)
  from lastIndexOf_ge [of xs c] have "lastIndexOf xs c + 1 \<noteq> - 1" by arith
  with Cons show ?case by (auto simp: Let_def)
qed

lemma indexOf_first: "c \<notin> set pre \<Longrightarrow> indexOf (pre @ c # rest) c = int (length pre)"
  by (induction pre) (auto simp: Let_def)

lemma lastIndexOf_last: "c \<notin> set post \<Longrightarrow> lastIndexOf (pre @ c # post) c = int (length pre)"
  by (induction pre) (auto simp: Let_def lastIndexOf_none)

lemma substring_middle:
  "substring (pre @ mid @ post) (int (length pre)) (int (length pre + length mid)) = mid"
proof -
  have "min (max (int (length pre)) 0) (int (length (pre @ mid @ post))) = int (length pre)"
    by simp
  moreover have "min (max (int (length pre + length mid)) 0) (int (length (pre @ mid @ post)))
      = int (length pre + length mid)"
    by simp
  moreover have "min (int (length pre)) (int (length pre + length mid)) = int (length pre)"
    by simp
  moreover have "max (int (length pre)) (int (length pre + length mid)) = int (length pre + length mid)"
    by simp
  ultimately show ?thesis
    unfolding substring_def Let_def by simp
qed

lemma cleanJsonString_pair:
  assumes "CHR ''{'' \<notin> set pre" "CHR ''}'' \<notin> set post"
  shows "cleanJsonString (pre @ ''{'' @ mid @ ''}'' @ post) = ''{'' @ mid @ ''}''"
proof -
  let ?s = "pre @ ''{'' @ mid @ ''}'' @ post"
  have f: "indexOf ?s CHR ''{'' = int (length pre)"
    using indexOf_first [OF assms(1)] by simp
  have "lastIndexOf ((pre @ ''{'' @ mid) @ CHR ''}'' # post) CHR ''}'' = int (length (pre @ ''{'' @ mid))"
    by (rule lastIndexOf_last [OF assms(2)])
  then have l: "lastIndexOf ?s CHR ''}'' = int (length pre + length mid + 1)" by simp
  have "substring (pre @ (''{'' @ mid @ ''}'') @ post) (int (length pre))
          (int (length pre + length (''{'' @ mid @ ''}''))) = ''{'' @ mid @ ''}''"
    by (rule substring_middle)
  then have s: "substring ?s (int (length pre)) (int (length pre + length mid + 1) + 1) = ''{'' @ mid @ ''}''"
    by (simp add: add.commute add.left_commute)
  show ?thesis
    unfolding cleanJsonString_def Let_def f l using s by simp
qed

lemma cleanJsonString_no_pair:
  assumes "\<not> (\<exists>pre mid post. s = pre @ ''{'' @ mid @ ''}'' @ post)"
  shows "cleanJsonString s = ''{}''"
proof (rule ccontr)
  assume neq: "cleanJsonString s \<noteq> ''{}''"
  then have a: "indexOf s CHR ''{'' \<noteq> - 1" and b: "lastIndexOf s CHR ''}'' \<noteq> - 1"
    and c: "indexOf s CHR ''{'' \<le> lastIndexOf s CHR ''}''"
    by (auto simp: cleanJsonString_def Let_def split: if_splits)
  from a obtain pre rest where s1: "s = pre @ CHR ''{'' # rest" and p: "CHR ''{'' \<notin> set pre"
    using split_list_first [of "CHR ''{''" s] by (auto simp: indexOf_none)
  have i: "indexOf s CHR ''{'' = int (length pre)"
    unfolding s1 by (rule indexOf_first [OF p])
  from b obtain pre2 post where s2: "s = pre2 @ CHR ''}'' # post" and q: "CHR ''}'' \<notin> set post"
    using split_list_last [of "CHR ''}''" s] by (auto simp: lastIndexOf_none)
  have j: "lastIndexOf s CHR ''}'' = int (length pre2)"
    unfolding s2 by (rule lastIndexOf_last [OF q])
  from c i j have le: "length pre \<le> length pre2" by simp
  have "s ! length pre = CHR ''{''" unfolding s1 by simp
  moreover have "s ! length pre2 = CHR ''}''" unfolding s2 by simp
  ultimately have "length pre \<noteq> length pre2" by auto
  with le have lt: "length pre < length pre2" by simp
  have "pre @ CHR ''{'' # rest = pre2 @ CHR ''}'' # post" using s1 s2 by simp
  then obtain mid where "rest = mid @ CHR ''}'' # post"
    using lt by (auto simp: append_eq_append_conv2 append_eq_Cons_conv Cons_eq_append_conv)
  with s1 have "s = pre @ ''{'' @ mid @ ''}'' @ post" by simp
  with assms show False by blast
qed

lemma map_of_setProp: "map_of (setProp k v ps) = (map_of ps)(k \<mapsto> v)"
  by (induction ps) (auto simp: fun_eq_iff)

lemma getProp_setProp: "getProp (setProp k v ps) k' = (if k' = k then v else getProp ps k')"
  by (simp add: getProp_def map_of_setProp)

section \<open>The pipeline, case by case\<close>

lemma image_cases:
  "(case find (\<lambda>part. inlineData part \<noteq> None)
           (case firstCandidateParts r of None \<Rightarrow> [] | Some ps \<Rightarrow> ps) of
      None \<Rightarrow> X
    | Some part \<Rightarrow> (case inlineData part of None \<Rightarrow> X | Some blob \<Rightarrow> F blob))
   = (case inlineImage r of None \<Rightarrow> X | Some blob \<Rightarrow> F blob)"
  by (simp add: inlineImage_def split: option.splits)

lemma find_truthyString:
  assumes "find (\<lambda>part. truthyString (text' part)) ps = Some part"
  shows "\<exists>t. text' part = Some t \<and> t \<noteq> []"
proof -
  from assms have "truthyString (text' part)" by (auto simp: find_Some_iff)
  then show ?thesis by (cases "text' part") auto
qed

lemma isArray_truthy: "isArray v \<Longrightarrow> truthy v"
  by (cases v) auto

lemma text_cases:
  "(case (case firstCandidateParts r of
            None \<Rightarrow> None
          | Some ps \<Rightarrow> find (\<lambda>part. truthyString (text' part)) ps) of
      None \<Rightarrow> X
    | Some part \<Rightarrow> (case text' part of None \<Rightarrow> X | Some t \<Rightarrow> if t = [] then X else F t))
   = (case textualPayload r of None \<Rightarrow> X | Some t \<Rightarrow> F t)"
proof (cases "firstCandidateParts r")
  case None
  then show ?thesis by (simp add: textualPayload_def)
next
  case (Some ps)
  show ?thesis
  proof (cases "find (\<lambda>part. truthyString (text' part)) ps")
    case None
    with Some show ?thesis by (simp add: textualPayload_def)
  next
    case found: (Some part)
    then obtain t where "text' part = Some t" "t \<noteq> []"
      using find_truthyString by blast
    with Some found show ?thesis by (simp add: textualPayload_def)
  qed
qed

lemma generateLegoBlueprint_no_image:
  assumes "truthyString (API_KEY pf)"
    and "generateContent pf (imageRequest img mime size') = Inr respA"
    and "inlineImage respA = None"
  shows "generateLegoBlueprint pf img mime size' =
           ([''Generating '' @ sizeName size' @ '' LEGO version...''],
            Inl (Error ''AI failed to generate a LEGO image. Please try a different image.''))"
  using assms unfolding generateLegoBlueprint_def Let_def image_cases imageRequest_def
  by simp

lemma resizeLegoBlueprint_no_image:
  assumes "truthyString (API_KEY pf)"
    and "generateContent pf (imageRequest img mime size') = Inr respA"
    and "inlineImage respA = None"
  shows "resizeLegoBlueprint pf img mime size' =
           ([''Generating '' @ sizeName size' @ '' version...''],
            Inl (Error (''AI failed to generate the '' @ sizeName size' @ '' LEGO image.'')))"
  using assms unfolding resizeLegoBlueprint_def Let_def image_cases imageRequest_def
  by simp

lemma generateLegoBlueprint_stages:
  assumes "truthyString (API_KEY pf)"
    and "generateContent pf (imageRequest img mime size') = Inr respA"
    and "inlineImage respA = Some blob"
    and "generateContent pf (partsRequest blob size') = Inr respB"
  shows "snd (generateLegoBlueprint pf img mime size') = Inr
           (case textualPayload respB of
              None \<Rightarrow> fallbackWith (dataUrl blob) size'
            | Some t \<Rightarrow>
                (case JSON_parse pf (cleanJsonString t) of
                   None \<Rightarrow> fallbackWith (dataUrl blob) size'
                 | Some v \<Rightarrow>
                     (case v of
                        JObject payload \<Rightarrow>
                          if hasPartsListAndTitle v
                          then setProp ''size'' (JString (sizeName size'))
                                 (setProp ''legoImageData'' (JString (dataUrl blob)) payload)
                          else fallbackWith (dataUrl blob) size'
                      | _ \<Rightarrow> fallbackWith (dataUrl blob) size')))"
  using assms unfolding generateLegoBlueprint_def Let_def image_cases text_cases
    imageRequest_def partsRequest_def fallbackWith_def dataUrl_def
  by (auto simp: isArray_truthy split: option.split jsval.split)

lemma resizeLegoBlueprint_stages:
  assumes "truthyString (API_KEY pf)"
    and "generateContent pf (imageRequest img mime size') = Inr respA"
    and "inlineImage respA = Some blob"
    and "generateContent pf (partsRequest blob size') = Inr respB"
  shows "snd (resizeLegoBlueprint pf img mime size') = Inr
           (case textualPayload respB of
              None \<Rightarrow> fallbackWith (dataUrl blob) size'
            | Some t \<Rightarrow>
                (case JSON_parse pf (cleanJsonString t) of
                   None \<Rightarrow> fallbackWith (dataUrl blob) size'
                 | Some v \<Rightarrow>
                     (case v of
                        JObject payload \<Rightarrow>
                          if hasPartsListAndTitle v
                          then setProp ''size'' (JString (sizeName size'))
                                 (setProp ''legoImageData'' (JString (dataUrl blob)) payload)
                          else fallbackWith (dataUrl blob) size'
                      | _ \<Rightarrow> fallbackWith (dataUrl blob) size')))"
  using assms unfolding resizeLegoBlueprint_def Let_def image_cases text_cases
    imageRequest_def partsRequest_def fallbackWith_def dataUrl_def
  by (auto simp: isArray_truthy split: option.split jsval.split)

lemma generateLegoBlueprint_no_key:
  "\<not> truthyString (API_KEY pf) \<Longrightarrow>
   generateLegoBlueprint pf img mime size' = ([], Inl (Error ''API_KEY environment variable not set.''))"
  by (simp add: generateLegoBlueprint_def)

lemma resizeLegoBlueprint_no_key:
  "\<not> truthyString (API_KEY pf) \<Longrightarrow>
   resizeLegoBlueprint pf img mime size' = ([], Inl (Error ''API_KEY environment variable not set.''))"
  by (simp add: resizeLegoBlueprint_def)

lemma generateLegoBlueprint_image_call_throws:
  assumes "truthyString (API_KEY pf)"
    and "generateContent pf (imageRequest img mime size') = Inl e"
  shows "generateLegoBlueprint pf img mime size' =
           ([''Generating '' @ sizeName size' @ '' LEGO version...''], Inl e)"
  using assms unfolding generateLegoBlueprint_def Let_def imageRequest_def by simp

lemma resizeLegoBlueprint_image_call_throws:
  assumes "truthyString (API_KEY pf)"
    and "generateContent pf (imageRequest img mime size') = Inl e"
  shows "resizeLegoBlueprint pf img mime size' =
           ([''Generating '' @ sizeName size' @ '' version...''], Inl e)"
  using assms unfolding resizeLegoBlueprint_def Let_def imageRequest_def by simp

lemma generateLegoBlueprint_parts_call:
  assumes "truthyString (API_KEY pf)"
    and "generateContent pf (imageRequest img mime size') = Inr respA"
    and "inlineImage respA = Some blob"
  shows "fst (generateLegoBlueprint pf img mime size') =
           [''Generating '' @ sizeName size' @ '' LEGO version...'', ''Analyzing LEGO image for parts...'']
         \<and> (generateContent pf (partsRequest blob size') = Inl e \<longrightarrow>
              snd (generateLegoBlueprint pf img mime size') = Inl e)"
  using assms unfolding generateLegoBlueprint_def Let_def image_cases imageRequest_def partsRequest_def
  by (simp split: sum.split)

lemma resizeLegoBlueprint_parts_call:
  assumes "truthyString (API_KEY pf)"
    and "generateContent pf (imageRequest img mime size') = Inr respA"
    and "inlineImage respA = Some blob"
  shows "fst (resizeLegoBlueprint pf img mime size') =
           [''Generating '' @ sizeName size' @ '' version...'', ''Analyzing new image for parts...'']
         \<and> (generateContent pf (partsRequest blob size') = Inl e \<longrightarrow>
              snd (resizeLegoBlueprint pf img mime size') = Inl e)"
  using assms unfolding resizeLegoBlueprint_def Let_def image_cases imageRequest_def partsRequest_def
  by (simp split: sum.split)

text \<open>Every Blueprint the pipeline returns carries the requested size.\<close>

lemma getProp_fallbackWith:
  "getProp (fallbackWith url size') ''size'' = JString (sizeName size')"
  "getProp (fallbackWith url size') ''legoImageData'' = JString url"
  by (simp_all add: fallbackWith_def getProp_setProp)

lemma generateLegoBlueprint_size:
  assumes "snd (generateLegoBlueprint pf img mime size') = Inr bp"
  shows "getProp bp ''size'' = JString (sizeName size')"
proof -
  have key: "truthyString (API_KEY pf)"
  proof (rule ccontr)
    assume "\<not> truthyString (API_KEY pf)"
    with assms show False by (simp add: generateLegoBlueprint_no_key)
  qed
  from assms key obtain respA where a: "generateContent pf (imageRequest img mime size') = Inr respA"
    by (cases "generateContent pf (imageRequest img mime size')")
       (auto simp: generateLegoBlueprint_image_call_throws)
  from assms key a obtain blob where b: "inlineImage respA = Some blob"
    by (cases "inlineImage respA") (auto simp: generateLegoBlueprint_no_image)
  from assms generateLegoBlueprint_parts_call [OF key a b]
  obtain respB where c: "generateContent pf (partsRequest blob size') = Inr respB"
    by (cases "generateContent pf (partsRequest blob size')") auto
  from assms show ?thesis
    unfolding generateLegoBlueprint_stages [OF key a b c]
    by (auto simp: getProp_fallbackWith getProp_setProp split: option.splits jsval.splits if_splits)
qed

lemma resizeLegoBlueprint_size:
  assumes "snd (resizeLegoBlueprint pf img mime size') = Inr bp"
  shows "getProp bp ''size'' = JString (sizeName size')"
proof -
  have key: "truthyString (API_KEY pf)"
  proof (rule ccontr)
    assume "\<not> truthyString (API_KEY pf)"
    with assms show False by (simp add: resizeLegoBlueprint_no_key)
  qed
  from assms key obtain respA where a: "generateContent pf (imageRequest img mime size') = Inr respA"
    by (cases "generateContent pf (imageRequest img mime size')")
       (auto simp: resizeLegoBlueprint_image_call_throws)
  from assms key a obtain blob where b: "inlineImage respA = Some blob"
    by (cases "inlineImage respA") (auto simp: resizeLegoBlueprint_no_image)
  from assms resizeLegoBlueprint_parts_call [OF key a b]
  obtain respB where c: "generateContent pf (partsRequest blob size') = Inr respB"
    by (cases "generateContent pf (partsRequest blob size')") auto
  from assms show ?thesis
    unfolding resizeLegoBlueprint_stages [OF key a b c]
    by (auto simp: getProp_fallbackWith getProp_setProp split: option.splits jsval.splits if_splits)
qed

section \<open>The concrete runs, evaluated\<close>

lemma demo_key: "truthyString (API_KEY (demoPlatform a t))"
  by (simp add: demoPlatform_def)

lemma demo_image_call:
  "generateContent (demoPlatform a t) (imageRequest img mime size') = Inr a"
  by (simp add: demoPlatform_def demoService_def imageRequest_def)

lemma demo_parts_call:
  "generateContent (demoPlatform a t) (partsRequest blob size') = Inr (textResponse t)"
  by (simp add: demoPlatform_def demoService_def partsRequest_def)

lemma demo_parse: "JSON_parse (demoPlatform a t) = demoParse"
  by (simp add: demoPlatform_def)

lemma demo_pricing: "validateAndPriceParts (demoPlatform a t) = demoPricing"
  by (simp add: demoPlatform_def)

lemma inlineImage_imageResponse: "inlineImage imageResponse = Some demoImage"
  by (simp add: inlineImage_def imageResponse_def firstCandidateParts_def at_index_def)

lemma inlineImage_textResponse: "inlineImage (textResponse t) = None"
  by (simp add: inlineImage_def textResponse_def firstCandidateParts_def at_index_def)

lemma textualPayload_textResponse: "t \<noteq> [] \<Longrightarrow> textualPayload (textResponse t) = Some t"
  by (simp add: textualPayload_def textResponse_def firstCandidateParts_def at_index_def)

lemma dataUrl_demoImage: "dataUrl demoImage = ''data:image/png;base64,iVBORw0KGgo=''"
  by (simp add: dataUrl_def demoImage_def)

lemma clean_proseWithObject: "cleanJsonString proseWithObject = objectText"
  by (simp add: proseWithObject_def objectText_def cleanJsonString_def substring_def Let_def)

lemma clean_emptyPartsText: "cleanJsonString emptyPartsText = emptyPartsText"
  by (simp add: emptyPartsText_def cleanJsonString_def substring_def Let_def)

lemma clean_echoText: "cleanJsonString echoText = echoText"
  by (simp add: echoText_def cleanJsonString_def substring_def Let_def)

lemma demoParse_texts:
  "demoParse ''{}'' = Some (JObject [])"
  "demoParse objectText = Some objectValue"
  "demoParse emptyPartsText = Some emptyPartsValue"
  "demoParse echoText = Some echoValue"
  by (simp_all add: demoParse_def objectText_def emptyPartsText_def echoText_def)

section \<open>Properties of the pipeline\<close>

text \<open>
  C1, as the code has it. In a run in which Stage A yields an image: if the Stage B call
  returns a response that has no textual payload, or whose extracted substring does not
  parse, or whose parsed value is not an object with a parts-list array and a truthy title,
  then both \<^verbatim>\<open>generateLegoBlueprint\<close> and \<^verbatim>\<open>resizeLegoBlueprint\<close> return (they do not
  throw) the fixed fallback Blueprint, whose \<^verbatim>\<open>legoImageData\<close> is the data URL of Stage
  A's image and whose \<^verbatim>\<open>size\<close> is the requested size, every other property being the
  canned one. The parts list only has to be an array: an empty one is accepted. If the
  Stage B call is rejected, both entry points throw what the call threw: the call is
  awaited outside the \<^verbatim>\<open>try\<close> block.
\<close>

theorem fallback_when_parts_extraction_fails:
  assumes "truthyString (API_KEY pf)"
    and "generateContent pf (imageRequest img mime size') = Inr respA"
    and "inlineImage respA = Some blob"
  shows "(generateContent pf (partsRequest blob size') = Inr respB \<longrightarrow>
          (textualPayload respB = None
           \<or> (\<exists>t. textualPayload respB = Some t
                  \<and> (JSON_parse pf (cleanJsonString t) = None
                      \<or> (\<exists>v. JSON_parse pf (cleanJsonString t) = Some v \<and> \<not> hasPartsListAndTitle v)))) \<longrightarrow>
            snd (generateLegoBlueprint pf img mime size') = Inr (fallbackWith (dataUrl blob) size')
            \<and> snd (resizeLegoBlueprint pf img mime size') = Inr (fallbackWith (dataUrl blob) size'))
       \<and> (generateContent pf (partsRequest blob size') = Inl e \<longrightarrow>
            snd (generateLegoBlueprint pf img mime size') = Inl e
            \<and> snd (resizeLegoBlueprint pf img mime size') = Inl e)
       \<and> getProp (fallbackWith (dataUrl blob) size') ''legoImageData'' = JString (dataUrl blob)
       \<and> getProp (fallbackWith (dataUrl blob) size') ''size'' = JString (sizeName size')
       \<and> (\<forall>k. k \<noteq> ''legoImageData'' \<longrightarrow> k \<noteq> ''size'' \<longrightarrow>
              getProp (fallbackWith (dataUrl blob) size') k = getProp fallbackBlueprint k)"
proof -
  have g: "snd (generateLegoBlueprint pf img mime size') = Inr (fallbackWith (dataUrl blob) size')
           \<and> snd (resizeLegoBlueprint pf img mime size') = Inr (fallbackWith (dataUrl blob) size')"
    if b: "generateContent pf (partsRequest blob size') = Inr respB"
      and bad: "textualPayload respB = None
           \<or> (\<exists>t. textualPayload respB = Some t
                  \<and> (JSON_parse pf (cleanJsonString t) = None
                      \<or> (\<exists>v. JSON_parse pf (cleanJsonString t) = Some v \<and> \<not> hasPartsListAndTitle v)))"
    unfolding generateLegoBlueprint_stages [OF assms b] resizeLegoBlueprint_stages [OF assms b]
    using bad by (auto split: jsval.splits)
  have r: "snd (generateLegoBlueprint pf img mime size') = Inl e
           \<and> snd (resizeLegoBlueprint pf img mime size') = Inl e"
    if "generateContent pf (partsRequest blob size') = Inl e"
    using that generateLegoBlueprint_parts_call [OF assms, of e]
      resizeLegoBlueprint_parts_call [OF assms, of e]
    by simp
  have k: "\<forall>k. k \<noteq> ''legoImageData'' \<longrightarrow> k \<noteq> ''size'' \<longrightarrow>
              getProp (fallbackWith (dataUrl blob) size') k = getProp fallbackBlueprint k"
    by (simp add: fallbackWith_def getProp_setProp)
  from g r k show ?thesis by (simp add: getProp_fallbackWith)
qed

theorem fallback_when_parts_extraction_fails_witness:
  "textualPayload (textResponse ''I cannot help with that.'') = Some ''I cannot help with that.''
   \<and> JSON_parse (demoPlatform imageResponse ''I cannot help with that.'')
        (cleanJsonString ''I cannot help with that.'') = Some (JObject [])
   \<and> \<not> hasPartsListAndTitle (JObject [])
   \<and> snd (generateLegoBlueprint (demoPlatform imageResponse ''I cannot help with that.'')
            ''data:image/jpeg;base64,/9j/4AAQ'' ''image/jpeg'' Medium)
       = Inr (fallbackWith ''data:image/png;base64,iVBORw0KGgo='' Medium)
   \<and> snd (resizeLegoBlueprint (demoPlatform imageResponse ''I cannot help with that.'')
            ''data:image/jpeg;base64,/9j/4AAQ'' ''image/jpeg'' Medium)
       = Inr (fallbackWith ''data:image/png;base64,iVBORw0KGgo='' Medium)"
proof -
  have t: "textualPayload (textResponse ''I cannot help with that.'') = Some ''I cannot help with that.''"
    by (simp add: textualPayload_textResponse)
  have c: "cleanJsonString ''I cannot help with that.'' = ''{}''"
    by (simp add: cleanJsonString_def)
  have p: "JSON_parse (demoPlatform imageResponse ''I cannot help with that.'')
             (cleanJsonString ''I cannot help with that.'') = Some (JObject [])"
    by (simp add: c demo_parse demoParse_texts)
  have n: "\<not> hasPartsListAndTitle (JObject [])"
    by (simp add: getProp_def)
  from t p n have bad:
    "textualPayload (textResponse ''I cannot help with that.'') = None
     \<or> (\<exists>t. textualPayload (textResponse ''I cannot help with that.'') = Some t
            \<and> (JSON_parse (demoPlatform imageResponse ''I cannot help with that.'') (cleanJsonString t) = None
                \<or> (\<exists>v. JSON_parse (demoPlatform imageResponse ''I cannot help with that.'') (cleanJsonString t) = Some v
                       \<and> \<not> hasPartsListAndTitle v)))"
    by blast
  show ?thesis
    using fallback_when_parts_extraction_fails
            [OF demo_key demo_image_call inlineImage_imageResponse,
             of "''I cannot help with that.''" Medium "textResponse ''I cannot help with that.''"
                "''data:image/jpeg;base64,/9j/4AAQ''" "''image/jpeg''"]
          demo_parts_call [of imageResponse "''I cannot help with that.''" demoImage Medium]
          bad t p n
    by (simp add: dataUrl_demoImage)
qed

text \<open>
  C1 as the specification words it fails in two ways. It asks for a non-empty parts list,
  and the code accepts an empty one: when Stage B answers
  \<^verbatim>\<open>{"title":"T","partsList":[]}\<close>, the parsed object has no non-empty parts list, and yet
  the pipeline returns that object (with the image and the size), not the fallback
  Blueprint. And it says that the pipeline does not throw once Stage A has succeeded: when
  the service rejects the Stage B call, so that no textual payload comes back, both entry
  points throw.
\<close>

theorem fallback_not_returned_for_empty_list_or_rejected_call:
  "JSON_parse (demoPlatform imageResponse emptyPartsText) (cleanJsonString emptyPartsText)
     = Some emptyPartsValue
   \<and> \<not> hasNonEmptyPartsListAndTitle emptyPartsValue
   \<and> snd (generateLegoBlueprint (demoPlatform imageResponse emptyPartsText)
            ''data:image/jpeg;base64,/9j/4AAQ'' ''image/jpeg'' Medium)
       = Inr [(''title'', JString ''T''), (''partsList'', JArray []),
              (''legoImageData'', JString ''data:image/png;base64,iVBORw0KGgo=''),
              (''size'', JString ''Medium'')]
   \<and> snd (generateLegoBlueprint (demoPlatform imageResponse emptyPartsText)
            ''data:image/jpeg;base64,/9j/4AAQ'' ''image/jpeg'' Medium)
       \<noteq> Inr (fallbackWith ''data:image/png;base64,iVBORw0KGgo='' Medium)
   \<and> generateContent rejectingPartsPlatform
        (imageRequest ''data:image/jpeg;base64,/9j/4AAQ'' ''image/jpeg'' Medium) = Inr imageResponse
   \<and> inlineImage imageResponse = Some demoImage
   \<and> generateContent rejectingPartsPlatform (partsRequest demoImage Medium)
       = Inl (Error ''503 Service Unavailable'')
   \<and> snd (generateLegoBlueprint rejectingPartsPlatform
            ''data:image/jpeg;base64,/9j/4AAQ'' ''image/jpeg'' Medium)
       = Inl (Error ''503 Service Unavailable'')
   \<and> snd (resizeLegoBlueprint rejectingPartsPlatform
            ''data:image/jpeg;base64,/9j/4AAQ'' ''image/jpeg'' Medium)
       = Inl (Error ''503 Service Unavailable'')"
proof -
  have t: "textualPayload (textResponse emptyPartsText) = Some emptyPartsText"
    by (rule textualPayload_textResponse) (simp add: emptyPartsText_def)
  have p: "JSON_parse (demoPlatform imageResponse emptyPartsText) (cleanJsonString emptyPartsText)
             = Some emptyPartsValue"
    by (simp add: clean_emptyPartsText demo_parse demoParse_texts)
  have n: "\<not> hasNonEmptyPartsListAndTitle emptyPartsValue"
    by (simp add: emptyPartsValue_def getProp_def)
  have g: "snd (generateLegoBlueprint (demoPlatform imageResponse emptyPartsText)
                 ''data:image/jpeg;base64,/9j/4AAQ'' ''image/jpeg'' Medium)
            = Inr [(''title'', JString ''T''), (''partsList'', JArray []),
                   (''legoImageData'', JString ''data:image/png;base64,iVBORw0KGgo=''),
                   (''size'', JString ''Medium'')]"
    unfolding generateLegoBlueprint_stages
                [OF demo_key demo_image_call inlineImage_imageResponse demo_parts_call] t
    by (simp add: p dataUrl_demoImage emptyPartsValue_def getProp_def)
  have f: "fallbackWith ''data:image/png;base64,iVBORw0KGgo='' Medium
            \<noteq> [(''title'', JString ''T''), (''partsList'', JArray []),
                (''legoImageData'', JString ''data:image/png;base64,iVBORw0KGgo=''),
                (''size'', JString ''Medium'')]"
    by (simp add: fallbackWith_def fallbackBlueprint_def)
  have k: "truthyString (API_KEY rejectingPartsPlatform)"
    by (simp add: rejectingPartsPlatform_def demoPlatform_def)
  have a: "generateContent rejectingPartsPlatform
             (imageRequest ''data:image/jpeg;base64,/9j/4AAQ'' ''image/jpeg'' Medium) = Inr imageResponse"
    by (simp add: rejectingPartsPlatform_def rejectingPartsService_def imageRequest_def)
  have b: "generateContent rejectingPartsPlatform (partsRequest demoImage Medium)
             = Inl (Error ''503 Service Unavailable'')"
    by (simp add: rejectingPartsPlatform_def rejectingPartsService_def partsRequest_def)
  from generateLegoBlueprint_parts_call [OF k a inlineImage_imageResponse] b
  have ge: "snd (generateLegoBlueprint rejectingPartsPlatform
                  ''data:image/jpeg;base64,/9j/4AAQ'' ''image/jpeg'' Medium)
              = Inl (Error ''503 Service Unavailable'')"
    by blast
  from resizeLegoBlueprint_parts_call [OF k a inlineImage_imageResponse] b
  have re: "snd (resizeLegoBlueprint rejectingPartsPlatform
                  ''data:image/jpeg;base64,/9j/4AAQ'' ''image/jpeg'' Medium)
              = Inl (Error ''503 Service Unavailable'')"
    by blast
  from p n g f a b ge re inlineImage_imageResponse show ?thesis by simp
qed

text \<open>A text has a brace pair exactly when a closing brace follows its first opening brace.\<close>

lemma brace_pair_dropWhile:
  "CHR ''}'' \<in> set (dropWhile (\<lambda>c. c \<noteq> CHR ''{'') (pre @ ''{'' @ mid @ ''}'' @ post))"
  by (induction pre) auto

lemma brace_pair_iff:
  "(\<exists>pre mid post. s = pre @ ''{'' @ mid @ ''}'' @ post)
   \<longleftrightarrow> CHR ''}'' \<in> set (dropWhile (\<lambda>c. c \<noteq> CHR ''{'') s)"
proof
  assume "\<exists>pre mid post. s = pre @ ''{'' @ mid @ ''}'' @ post"
  then show "CHR ''}'' \<in> set (dropWhile (\<lambda>c. c \<noteq> CHR ''{'') s)"
    using brace_pair_dropWhile by auto
next
  assume a: "CHR ''}'' \<in> set (dropWhile (\<lambda>c. c \<noteq> CHR ''{'') s)"
  then obtain x rest where d0: "dropWhile (\<lambda>c. c \<noteq> CHR ''{'') s = x # rest"
    by (cases "dropWhile (\<lambda>c. c \<noteq> CHR ''{'') s") simp_all
  then have "\<not> x \<noteq> CHR ''{''"
    using hd_dropWhile [of "\<lambda>c. c \<noteq> CHR ''{''" s] by simp
  with d0 have d: "dropWhile (\<lambda>c. c \<noteq> CHR ''{'') s = CHR ''{'' # rest"
    by simp
  with a have "CHR ''}'' \<in> set rest" by simp
  then obtain mid post where r: "rest = mid @ CHR ''}'' # post"
    by (auto simp: in_set_conv_decomp)
  have "s = takeWhile (\<lambda>c. c \<noteq> CHR ''{'') s @ dropWhile (\<lambda>c. c \<noteq> CHR ''{'') s"
    by simp
  with d r have "s = takeWhile (\<lambda>c. c \<noteq> CHR ''{'') s @ ''{'' @ mid @ ''}'' @ post"
    by simp
  then show "\<exists>pre mid post. s = pre @ ''{'' @ mid @ ''}'' @ post" by blast
qed


text \<open>
  C2. When the response of the Stage A call holds no inline image payload, both
  \<^verbatim>\<open>generateLegoBlueprint\<close> and \<^verbatim>\<open>resizeLegoBlueprint\<close> throw an \<^verbatim>\<open>Error\<close>: they return no
  Blueprint, so no fallback Blueprint either. (Without an API key they throw before any
  call is made.)
\<close>

theorem no_image_payload_is_fatal:
  assumes "generateContent pf (imageRequest img mime size') = Inr respA"
    and "inlineImage respA = None"
  shows "snd (generateLegoBlueprint pf img mime size') =
           Inl (Error (if truthyString (API_KEY pf)
                       then ''AI failed to generate a LEGO image. Please try a different image.''
                       else ''API_KEY environment variable not set.''))
       \<and> snd (resizeLegoBlueprint pf img mime size') =
           Inl (Error (if truthyString (API_KEY pf)
                       then ''AI failed to generate the '' @ sizeName size' @ '' LEGO image.''
                       else ''API_KEY environment variable not set.''))
       \<and> (\<forall>bp. snd (generateLegoBlueprint pf img mime size') \<noteq> Inr bp
                \<and> snd (resizeLegoBlueprint pf img mime size') \<noteq> Inr bp)"
proof (cases "truthyString (API_KEY pf)")
  case True
  show ?thesis
    using True generateLegoBlueprint_no_image [OF True assms] resizeLegoBlueprint_no_image [OF True assms]
    by simp
next
  case False
  show ?thesis
    using False generateLegoBlueprint_no_key [OF False, of img mime size']
      resizeLegoBlueprint_no_key [OF False, of img mime size']
    by simp
qed

theorem no_image_payload_is_fatal_witness:
  "inlineImage (textResponse ''I can only answer in text.'') = None
   \<and> snd (generateLegoBlueprint (demoPlatform (textResponse ''I can only answer in text.'') objectText)
            ''data:image/jpeg;base64,/9j/4AAQ'' ''image/jpeg'' Large)
       = Inl (Error ''AI failed to generate a LEGO image. Please try a different image.'')
   \<and> snd (resizeLegoBlueprint (demoPlatform (textResponse ''I can only answer in text.'') objectText)
            ''data:image/jpeg;base64,/9j/4AAQ'' ''image/jpeg'' Large)
       = Inl (Error ''AI failed to generate the Large LEGO image.'')"
  using no_image_payload_is_fatal
          [OF demo_image_call inlineImage_textResponse,
           of "''I can only answer in text.''" objectText
              "''data:image/jpeg;base64,/9j/4AAQ''" "''image/jpeg''" Large]
  by (simp add: demo_key inlineImage_textResponse)

text \<open>
  C3. When the text has a \<^verbatim>\<open>{\<close> with a \<^verbatim>\<open>}\<close> somewhere after it, \<^verbatim>\<open>cleanJsonString\<close> returns
  the substring from the first \<^verbatim>\<open>{\<close> to the last \<^verbatim>\<open>}\<close>, both included. When it has no such
  pair (no \<^verbatim>\<open>{\<close>, no \<^verbatim>\<open>}\<close>, or the last \<^verbatim>\<open>}\<close> before the first \<^verbatim>\<open>{\<close>), it returns the text of
  the empty object, and a pipeline run whose Stage B text is such a string ends with the
  fallback Blueprint (\<^verbatim>\<open>JSON.parse\<close> turns that text into an object without properties).
\<close>

theorem cleanJsonString_first_to_last_brace:
  "(CHR ''{'' \<notin> set pre \<longrightarrow> CHR ''}'' \<notin> set post \<longrightarrow>
      cleanJsonString (pre @ ''{'' @ mid @ ''}'' @ post) = ''{'' @ mid @ ''}'')
   \<and> ((\<nexists>pre mid post. s = pre @ ''{'' @ mid @ ''}'' @ post) \<longrightarrow>
        cleanJsonString s = ''{}''
        \<and> (truthyString (API_KEY pf) \<longrightarrow>
            generateContent pf (imageRequest img mime size') = Inr respA \<longrightarrow>
            inlineImage respA = Some blob \<longrightarrow>
            generateContent pf (partsRequest blob size') = Inr respB \<longrightarrow>
            textualPayload respB = Some s \<longrightarrow>
            JSON_parse pf ''{}'' = Some (JObject []) \<longrightarrow>
              snd (generateLegoBlueprint pf img mime size') = Inr (fallbackWith (dataUrl blob) size')
              \<and> snd (resizeLegoBlueprint pf img mime size') = Inr (fallbackWith (dataUrl blob) size')))"
proof (intro conjI impI)
  assume "CHR ''{'' \<notin> set pre" "CHR ''}'' \<notin> set post"
  then show "cleanJsonString (pre @ ''{'' @ mid @ ''}'' @ post) = ''{'' @ mid @ ''}''"
    by (rule cleanJsonString_pair)
next
  assume "\<nexists>pre mid post. s = pre @ ''{'' @ mid @ ''}'' @ post"
  then show "cleanJsonString s = ''{}''"
    by (rule cleanJsonString_no_pair)
next
  assume np: "\<nexists>pre mid post. s = pre @ ''{'' @ mid @ ''}'' @ post"
    and run: "truthyString (API_KEY pf)"
      "generateContent pf (imageRequest img mime size') = Inr respA"
      "inlineImage respA = Some blob"
      "generateContent pf (partsRequest blob size') = Inr respB"
    and t: "textualPayload respB = Some s"
    and p: "JSON_parse pf ''{}'' = Some (JObject [])"
  have c: "cleanJsonString s = ''{}''"
    using np by (rule cleanJsonString_no_pair)
  show "snd (generateLegoBlueprint pf img mime size') = Inr (fallbackWith (dataUrl blob) size')"
    unfolding generateLegoBlueprint_stages [OF run] t
    by (simp add: c p getProp_def)
next
  assume np: "\<nexists>pre mid post. s = pre @ ''{'' @ mid @ ''}'' @ post"
    and run: "truthyString (API_KEY pf)"
      "generateContent pf (imageRequest img mime size') = Inr respA"
      "inlineImage respA = Some blob"
      "generateContent pf (partsRequest blob size') = Inr respB"
    and t: "textualPayload respB = Some s"
    and p: "JSON_parse pf ''{}'' = Some (JObject [])"
  have c: "cleanJsonString s = ''{}''"
    using np by (rule cleanJsonString_no_pair)
  show "snd (resizeLegoBlueprint pf img mime size') = Inr (fallbackWith (dataUrl blob) size')"
    unfolding resizeLegoBlueprint_stages [OF run] t
    by (simp add: c p getProp_def)
qed

theorem cleanJsonString_first_to_last_brace_witness:
  "cleanJsonString proseWithObject = objectText
   \<and> (\<nexists>pre mid post. ''} no object {'' = pre @ ''{'' @ mid @ ''}'' @ post)
   \<and> cleanJsonString ''} no object {'' = ''{}''
   \<and> snd (generateLegoBlueprint (demoPlatform imageResponse ''} no object {'')
            ''data:image/jpeg;base64,/9j/4AAQ'' ''image/jpeg'' Micro)
       = Inr (fallbackWith ''data:image/png;base64,iVBORw0KGgo='' Micro)
   \<and> snd (resizeLegoBlueprint (demoPlatform imageResponse ''} no object {'')
            ''data:image/jpeg;base64,/9j/4AAQ'' ''image/jpeg'' Micro)
       = Inr (fallbackWith ''data:image/png;base64,iVBORw0KGgo='' Micro)"
proof -
  have np: "\<nexists>pre mid post. ''} no object {'' = pre @ ''{'' @ mid @ ''}'' @ post"
    using brace_pair_iff [of "''} no object {''"] by simp
  have pre: "CHR ''{'' \<notin> set ''Sorry, here: ''" and post: "CHR ''}'' \<notin> set '' extra''"
    by simp_all
  have split: "proseWithObject = ''Sorry, here: '' @ ''{'' @ tl (butlast objectText) @ ''}'' @ '' extra''"
    by (simp add: proseWithObject_def objectText_def)
  have obj: "''{'' @ tl (butlast objectText) @ ''}'' = objectText"
    by (simp add: objectText_def)
  have t: "textualPayload (textResponse ''} no object {'') = Some ''} no object {''"
    by (simp add: textualPayload_textResponse)
  have p: "JSON_parse (demoPlatform imageResponse ''} no object {'') ''{}'' = Some (JObject [])"
    by (simp add: demo_parse demoParse_texts)
  show ?thesis
    using cleanJsonString_first_to_last_brace
            [of "''Sorry, here: ''" "'' extra''" "tl (butlast objectText)" "''} no object {''"
                "demoPlatform imageResponse ''} no object {''"
                "''data:image/jpeg;base64,/9j/4AAQ''" "''image/jpeg''" Micro
                imageResponse demoImage "textResponse ''} no object {''"]
          np pre post t p demo_key [of imageResponse "''} no object {''"]
          demo_image_call [of imageResponse "''} no object {''" "''data:image/jpeg;base64,/9j/4AAQ''" "''image/jpeg''" Micro]
          inlineImage_imageResponse
          demo_parts_call [of imageResponse "''} no object {''" demoImage Micro]
    unfolding split [symmetric] obj dataUrl_demoImage
    by blast
qed

text \<open>
  C6. In a run in which the Stage B text parses to an object that passes the check, both
  entry points return that object with \<^verbatim>\<open>legoImageData\<close> set to the data URL of Stage A's
  image and \<^verbatim>\<open>size\<close> set to the requested size, whatever the parsed object held under
  these two names; every other property is the parsed object's.
\<close>

theorem pipeline_values_override_payload:
  assumes "truthyString (API_KEY pf)"
    and "generateContent pf (imageRequest img mime size') = Inr respA"
    and "inlineImage respA = Some blob"
    and "generateContent pf (partsRequest blob size') = Inr respB"
    and "textualPayload respB = Some t"
    and "JSON_parse pf (cleanJsonString t) = Some (JObject payload)"
    and "isArray (getProp payload ''partsList'')"
    and "truthy (getProp payload ''title'')"
  shows "\<exists>bp. snd (generateLegoBlueprint pf img mime size') = Inr bp
            \<and> snd (resizeLegoBlueprint pf img mime size') = Inr bp
            \<and> getProp bp ''legoImageData'' = JString (dataUrl blob)
            \<and> getProp bp ''size'' = JString (sizeName size')
            \<and> (\<forall>k. k \<noteq> ''legoImageData'' \<longrightarrow> k \<noteq> ''size'' \<longrightarrow> getProp bp k = getProp payload k)"
proof -
  let ?bp = "setProp ''size'' (JString (sizeName size'))
               (setProp ''legoImageData'' (JString (dataUrl blob)) payload)"
  have g: "snd (generateLegoBlueprint pf img mime size') = Inr ?bp"
    unfolding generateLegoBlueprint_stages [OF assms(1-4)] using assms(5-8) by simp
  have r: "snd (resizeLegoBlueprint pf img mime size') = Inr ?bp"
    unfolding resizeLegoBlueprint_stages [OF assms(1-4)] using assms(5-8) by simp
  have "getProp ?bp ''legoImageData'' = JString (dataUrl blob)"
    and "getProp ?bp ''size'' = JString (sizeName size')"
    and "\<forall>k. k \<noteq> ''legoImageData'' \<longrightarrow> k \<noteq> ''size'' \<longrightarrow> getProp ?bp k = getProp payload k"
    by (simp_all add: getProp_setProp)
  with g r show ?thesis by blast
qed

theorem pipeline_values_override_payload_witness:
  "getProp [(''title'', JString ''T''), (''partsList'', JArray []), (''size'', JString ''Large''),
            (''legoImageData'', JString ''stale''), (''realTotalCost'', JNumber 5)] ''size''
     = JString ''Large''
   \<and> (\<exists>bp. snd (generateLegoBlueprint (demoPlatform imageResponse echoText)
                  ''data:image/jpeg;base64,/9j/4AAQ'' ''image/jpeg'' Micro) = Inr bp
          \<and> snd (resizeLegoBlueprint (demoPlatform imageResponse echoText)
                  ''data:image/jpeg;base64,/9j/4AAQ'' ''image/jpeg'' Micro) = Inr bp
          \<and> getProp bp ''legoImageData'' = JString ''data:image/png;base64,iVBORw0KGgo=''
          \<and> getProp bp ''size'' = JString ''Micro''
          \<and> getProp bp ''title'' = JString ''T'')"
proof -
  have t: "textualPayload (textResponse echoText) = Some echoText"
    by (rule textualPayload_textResponse) (simp add: echoText_def)
  have p: "JSON_parse (demoPlatform imageResponse echoText) (cleanJsonString echoText)
             = Some (JObject [(''title'', JString ''T''), (''partsList'', JArray []),
                   (''size'', JString ''Large''), (''legoImageData'', JString ''stale''),
                   (''realTotalCost'', JNumber 5)])"
    by (simp add: clean_echoText demo_parse demoParse_texts echoValue_def)
  have a: "isArray (getProp [(''title'', JString ''T''), (''partsList'', JArray []),
                   (''size'', JString ''Large''), (''legoImageData'', JString ''stale''),
                   (''realTotalCost'', JNumber 5)] ''partsList'')"
    and b: "truthy (getProp [(''title'', JString ''T''), (''partsList'', JArray []),
                   (''size'', JString ''Large''), (''legoImageData'', JString ''stale''),
                   (''realTotalCost'', JNumber 5)] ''title'')"
    by (simp_all add: getProp_def)
  from pipeline_values_override_payload
         [OF demo_key demo_image_call inlineImage_imageResponse demo_parts_call t p a b,
          of "''data:image/jpeg;base64,/9j/4AAQ''" "''image/jpeg''" Micro]
  obtain bp where g: "snd (generateLegoBlueprint (demoPlatform imageResponse echoText)
                  ''data:image/jpeg;base64,/9j/4AAQ'' ''image/jpeg'' Micro) = Inr bp"
    and r: "snd (resizeLegoBlueprint (demoPlatform imageResponse echoText)
                  ''data:image/jpeg;base64,/9j/4AAQ'' ''image/jpeg'' Micro) = Inr bp"
    and i: "getProp bp ''legoImageData'' = JString (dataUrl demoImage)"
    and s: "getProp bp ''size'' = JString (sizeName Micro)"
    and k: "\<forall>k. k \<noteq> ''legoImageData'' \<longrightarrow> k \<noteq> ''size'' \<longrightarrow>
              getProp bp k = getProp [(''title'', JString ''T''), (''partsList'', JArray []),
                   (''size'', JString ''Large''), (''legoImageData'', JString ''stale''),
                   (''realTotalCost'', JNumber 5)] k"
    by blast
  from k have "getProp bp ''title'' = JString ''T''"
    by (simp add: getProp_def)
  moreover have "getProp [(''title'', JString ''T''), (''partsList'', JArray []),
                   (''size'', JString ''Large''), (''legoImageData'', JString ''stale''),
                   (''realTotalCost'', JNumber 5)] ''size'' = JString ''Large''"
    by (simp add: getProp_def)
  ultimately show ?thesis
    using g r i s by (auto simp: dataUrl_demoImage)
qed

text \<open>
  C7, as the code has it. On the same inputs and the same platform the two entry points
  return the same Blueprint and fail in the same cases: their results are equal, except
  when Stage A yields no image, where both throw but with different messages. They send
  the same number of progress messages. (The texts of the messages differ.)
\<close>

theorem generate_and_resize_same_result:
  "(snd (generateLegoBlueprint pf img mime size') = snd (resizeLegoBlueprint pf img mime size')
    \<or> (snd (generateLegoBlueprint pf img mime size')
          = Inl (Error ''AI failed to generate a LEGO image. Please try a different image.'')
        \<and> snd (resizeLegoBlueprint pf img mime size')
          = Inl (Error (''AI failed to generate the '' @ sizeName size' @ '' LEGO image.''))))
   \<and> length (fst (generateLegoBlueprint pf img mime size'))
       = length (fst (resizeLegoBlueprint pf img mime size'))"
proof (cases "truthyString (API_KEY pf)")
  case False
  then show ?thesis
    by (simp add: generateLegoBlueprint_no_key resizeLegoBlueprint_no_key)
next
  case key: True
  show ?thesis
  proof (cases "generateContent pf (imageRequest img mime size')")
    case (Inl e)
    show ?thesis
      by (simp add: generateLegoBlueprint_image_call_throws [OF key Inl]
            resizeLegoBlueprint_image_call_throws [OF key Inl])
  next
    case a: (Inr respA)
    show ?thesis
    proof (cases "inlineImage respA")
      case None
      show ?thesis
        by (simp add: generateLegoBlueprint_no_image [OF key a None]
              resizeLegoBlueprint_no_image [OF key a None])
    next
      case b: (Some blob)
      have len: "length (fst (generateLegoBlueprint pf img mime size'))
                   = length (fst (resizeLegoBlueprint pf img mime size'))"
        using generateLegoBlueprint_parts_call [OF key a b] resizeLegoBlueprint_parts_call [OF key a b]
        by simp
      show ?thesis
      proof (cases "generateContent pf (partsRequest blob size')")
        case (Inl e)
        with generateLegoBlueprint_parts_call [OF key a b, of e]
          resizeLegoBlueprint_parts_call [OF key a b, of e] len
        show ?thesis by simp
      next
        case (Inr respB)
        show ?thesis
          using len
          by (simp add: generateLegoBlueprint_stages [OF key a b Inr]
                resizeLegoBlueprint_stages [OF key a b Inr])
      qed
    qed
  qed
qed

theorem generate_and_resize_same_result_witness:
  "snd (generateLegoBlueprint (demoPlatform imageResponse proseWithObject)
          ''data:image/jpeg;base64,/9j/4AAQ'' ''image/jpeg'' Medium)
     = snd (resizeLegoBlueprint (demoPlatform imageResponse proseWithObject)
          ''data:image/jpeg;base64,/9j/4AAQ'' ''image/jpeg'' Medium)
   \<and> snd (resizeLegoBlueprint (demoPlatform imageResponse proseWithObject)
          ''data:image/jpeg;base64,/9j/4AAQ'' ''image/jpeg'' Medium)
     = Inr [(''title'', JString ''T''),
            (''partsList'', JArray [JObject
               [(''pieceId'', JString ''1''), (''pieceName'', JString ''P''), (''color'', JString ''C''),
                (''quantity'', JNumber 1), (''estimatedPrice'', JNumber 1)]]),
            (''legoImageData'', JString ''data:image/png;base64,iVBORw0KGgo=''),
            (''size'', JString ''Medium'')]"
proof -
  have t: "textualPayload (textResponse proseWithObject) = Some proseWithObject"
    by (rule textualPayload_textResponse) (simp add: proseWithObject_def)
  have r: "snd (resizeLegoBlueprint (demoPlatform imageResponse proseWithObject)
                 ''data:image/jpeg;base64,/9j/4AAQ'' ''image/jpeg'' Medium)
     = Inr [(''title'', JString ''T''),
            (''partsList'', JArray [JObject
               [(''pieceId'', JString ''1''), (''pieceName'', JString ''P''), (''color'', JString ''C''),
                (''quantity'', JNumber 1), (''estimatedPrice'', JNumber 1)]]),
            (''legoImageData'', JString ''data:image/png;base64,iVBORw0KGgo=''),
            (''size'', JString ''Medium'')]"
    unfolding resizeLegoBlueprint_stages
                [OF demo_key demo_image_call inlineImage_imageResponse demo_parts_call] t
    by (simp add: clean_proseWithObject demo_parse demoParse_texts dataUrl_demoImage
          objectValue_def getProp_def)
  show ?thesis
    using generate_and_resize_same_result
            [of "demoPlatform imageResponse proseWithObject"
                "''data:image/jpeg;base64,/9j/4AAQ''" "''image/jpeg''" Medium]
          r
    by simp
qed

text \<open>
  C7 as the specification words it makes the two entry points behaviourally identical for
  every progress sink. They are not: on the same run the sink receives different
  messages, and when Stage A yields no image the errors thrown carry different messages.
\<close>

theorem generate_and_resize_differ_in_messages:
  "fst (generateLegoBlueprint (demoPlatform imageResponse proseWithObject)
          ''data:image/jpeg;base64,/9j/4AAQ'' ''image/jpeg'' Medium)
     = [''Generating Medium LEGO version...'', ''Analyzing LEGO image for parts...'']
   \<and> fst (resizeLegoBlueprint (demoPlatform imageResponse proseWithObject)
          ''data:image/jpeg;base64,/9j/4AAQ'' ''image/jpeg'' Medium)
     = [''Generating Medium version...'', ''Analyzing new image for parts...'']
   \<and> generateLegoBlueprint (demoPlatform imageResponse proseWithObject)
          ''data:image/jpeg;base64,/9j/4AAQ'' ''image/jpeg'' Medium
     \<noteq> resizeLegoBlueprint (demoPlatform imageResponse proseWithObject)
          ''data:image/jpeg;base64,/9j/4AAQ'' ''image/jpeg'' Medium
   \<and> snd (generateLegoBlueprint (demoPlatform (textResponse ''No image.'') proseWithObject)
          ''data:image/jpeg;base64,/9j/4AAQ'' ''image/jpeg'' Medium)
     = Inl (Error ''AI failed to generate a LEGO image. Please try a different image.'')
   \<and> snd (resizeLegoBlueprint (demoPlatform (textResponse ''No image.'') proseWithObject)
          ''data:image/jpeg;base64,/9j/4AAQ'' ''image/jpeg'' Medium)
     = Inl (Error ''AI failed to generate the Medium LEGO image.'')"
proof -
  have g: "fst (generateLegoBlueprint (demoPlatform imageResponse proseWithObject)
                 ''data:image/jpeg;base64,/9j/4AAQ'' ''image/jpeg'' Medium)
            = [''Generating Medium LEGO version...'', ''Analyzing LEGO image for parts...'']"
    using generateLegoBlueprint_parts_call [OF demo_key demo_image_call inlineImage_imageResponse]
    by simp
  have r: "fst (resizeLegoBlueprint (demoPlatform imageResponse proseWithObject)
                 ''data:image/jpeg;base64,/9j/4AAQ'' ''image/jpeg'' Medium)
            = [''Generating Medium version...'', ''Analyzing new image for parts...'']"
    using resizeLegoBlueprint_parts_call [OF demo_key demo_image_call inlineImage_imageResponse]
    by simp
  have ne: "generateLegoBlueprint (demoPlatform imageResponse proseWithObject)
               ''data:image/jpeg;base64,/9j/4AAQ'' ''image/jpeg'' Medium
            \<noteq> resizeLegoBlueprint (demoPlatform imageResponse proseWithObject)
               ''data:image/jpeg;base64,/9j/4AAQ'' ''image/jpeg'' Medium"
  proof
    assume "generateLegoBlueprint (demoPlatform imageResponse proseWithObject)
               ''data:image/jpeg;base64,/9j/4AAQ'' ''image/jpeg'' Medium
            = resizeLegoBlueprint (demoPlatform imageResponse proseWithObject)
               ''data:image/jpeg;base64,/9j/4AAQ'' ''image/jpeg'' Medium"
    then have "fst (generateLegoBlueprint (demoPlatform imageResponse proseWithObject)
               ''data:image/jpeg;base64,/9j/4AAQ'' ''image/jpeg'' Medium)
            = fst (resizeLegoBlueprint (demoPlatform imageResponse proseWithObject)
               ''data:image/jpeg;base64,/9j/4AAQ'' ''image/jpeg'' Medium)"
      by simp
    then show False unfolding g r by simp
  qed
  have ge: "snd (generateLegoBlueprint (demoPlatform (textResponse ''No image.'') proseWithObject)
          ''data:image/jpeg;base64,/9j/4AAQ'' ''image/jpeg'' Medium)
     = Inl (Error ''AI failed to generate a LEGO image. Please try a different image.'')"
    by (simp add: generateLegoBlueprint_no_image [OF demo_key demo_image_call inlineImage_textResponse])
  have re: "snd (resizeLegoBlueprint (demoPlatform (textResponse ''No image.'') proseWithObject)
          ''data:image/jpeg;base64,/9j/4AAQ'' ''image/jpeg'' Medium)
     = Inl (Error ''AI failed to generate the Medium LEGO image.'')"
    by (simp add: resizeLegoBlueprint_no_image [OF demo_key demo_image_call inlineImage_textResponse])
  from g r ne ge re show ?thesis by blast
qed

section \<open>Validation and the real total cost\<close>

lemma foldl_engineSum:
  "foldl (\<lambda>sum part. numberAdd pf sum (numberMultiply pf (realPrice part) (quantity part))) subtotal vps
     = engineSum pf subtotal vps"
  by (induction vps arbitrary: subtotal) simp_all

lemma engineSum_exact:
  "exactlyComputed pf subtotal vps \<Longrightarrow>
   engineSum pf subtotal vps = subtotal + (\<Sum>part\<leftarrow>vps. realPrice part * quantity part)"
  by (induction vps arbitrary: subtotal) (simp_all add: add.assoc)

lemma getProp_fallbackBlueprint_realTotalCost:
  "getProp (fallbackWith url size') ''realTotalCost'' = JUndefined"
  by (simp add: fallbackWith_def getProp_setProp) (simp add: getProp_def fallbackBlueprint_def)

text \<open>What the two \<^verbatim>\<open>try\<close> blocks yield when they complete.\<close>

lemma handleConvertClick_try_Inr:
  assumes "handleConvertClick_try pf file size' = Inr bp"
  shows "\<exists>base64Image initial vps.
           snd (generateLegoBlueprint pf base64Image (type' file) size') = Inr initial
           \<and> validateAndPriceParts pf (getProp initial ''partsList'') = Inr vps
           \<and> bp = setProp ''realTotalCost'' (JNumber (engineSum pf 0 vps))
                    (setProp ''validatedParts'' (JArray (map jsValidatedLegoPart vps)) initial)"
  using assms unfolding handleConvertClick_try_def Let_def
  by (auto simp: foldl_engineSum split: sum.splits)

lemma handleResize_try_Inr:
  assumes "handleResize_try pf file size' = Inr bp"
  shows "\<exists>base64Image initial vps.
           snd (resizeLegoBlueprint pf base64Image (type' file) size') = Inr initial
           \<and> validateAndPriceParts pf (getProp initial ''partsList'') = Inr vps
           \<and> bp = setProp ''realTotalCost'' (JNumber (engineSum pf 0 vps))
                    (setProp ''validatedParts'' (JArray (map jsValidatedLegoPart vps)) initial)"
  using assms unfolding handleResize_try_def Let_def
  by (auto simp: foldl_engineSum split: sum.splits)

lemma handleConvertClick_stored:
  assumes "selectedFile st = Some file"
  shows "legoBlueprint (handleConvertClick pf st) =
           (case handleConvertClick_try pf file (selectedSize st) of Inl e \<Rightarrow> None | Inr bp \<Rightarrow> Some bp)"
  using assms unfolding handleConvertClick_def Let_def
  by (simp split: sum.split thrown.split)

lemma handleResize_completed:
  assumes "\<not> isResizing rendered" and "handleResize_try pf file targetSize = Inr bp"
  shows "handleResize pf (Some file) rendered targetSize live =
           live\<lparr>blueprints := blueprints live @ [bp], currentIndex := length (blueprints rendered),
                isResizing := False, resizeProgress := [], resizeError := None\<rparr>"
  using assms unfolding handleResize_def Let_def by simp

lemma handleResize_failed:
  assumes "\<not> isResizing rendered" and "handleResize_try pf file targetSize = Inl e"
  shows "handleResize pf (Some file) rendered targetSize live =
           live\<lparr>isResizing := False, resizeProgress := [],
                resizeError := Some (case e of Error message \<Rightarrow> message
                                     | NonError \<Rightarrow> ''An unknown error occurred during resize.'')\<rparr>"
  using assms unfolding handleResize_def Let_def by (simp split: thrown.split)

lemma handleResize_blueprints:
  "blueprints (handleResize pf originalImage rendered targetSize live) = blueprints live
   \<or> (\<exists>file bp. originalImage = Some file \<and> \<not> isResizing rendered
         \<and> handleResize_try pf file targetSize = Inr bp
         \<and> blueprints (handleResize pf originalImage rendered targetSize live) = blueprints live @ [bp])"
proof (cases "isResizing rendered")
  case True
  then show ?thesis by (simp add: handleResize_def)
next
  case idle: False
  show ?thesis
  proof (cases originalImage)
    case None
    then show ?thesis by (simp add: handleResize_def)
  next
    case (Some upload)
    show ?thesis
    proof (cases "handleResize_try pf upload targetSize")
      case (Inl e)
      show ?thesis unfolding Some handleResize_failed [OF idle Inl] by simp
    next
      case (Inr bp)
      show ?thesis unfolding Some handleResize_completed [OF idle Inr] using idle Inr by simp
    qed
  qed
qed

text \<open>
  C4, as the code has it. The Blueprint that a conversion stores, and the Blueprint that a
  resize appends, carry the list \<^verbatim>\<open>validatedParts\<close> that the pricing service returned for
  the pipeline's Blueprint, and a \<^verbatim>\<open>realTotalCost\<close> that is the sum over that list of
  \<^verbatim>\<open>realPrice * quantity\<close> as \<^verbatim>\<open>reduce\<close> computes it: from the left, starting at 0, every
  product and every addition in the engine's arithmetic. It is the exact sum when none of
  these operations rounds. Before validation, the Blueprint that the pipeline returns has
  no \<^verbatim>\<open>realTotalCost\<close> unless the object parsed from the Stage B text has one, which the
  pipeline then passes on.
\<close>

theorem realTotalCost_is_sum_over_validatedParts:
  "(selectedFile st = Some file \<longrightarrow> legoBlueprint (handleConvertClick pf st) = Some bp \<longrightarrow>
      (\<exists>base64Image initial vps.
          snd (generateLegoBlueprint pf base64Image (type' file) (selectedSize st)) = Inr initial
          \<and> validateAndPriceParts pf (getProp initial ''partsList'') = Inr vps
          \<and> getProp bp ''validatedParts'' = JArray (map jsValidatedLegoPart vps)
          \<and> getProp bp ''realTotalCost'' = JNumber (engineSum pf 0 vps)
          \<and> (exactlyComputed pf 0 vps \<longrightarrow>
                getProp bp ''realTotalCost'' = JNumber (\<Sum>part\<leftarrow>vps. realPrice part * quantity part))))
   \<and> (blueprints (handleResize pf originalImage rendered targetSize live) = blueprints live @ [bp'] \<longrightarrow>
      (\<exists>file' base64Image initial vps. originalImage = Some file'
          \<and> snd (resizeLegoBlueprint pf base64Image (type' file') targetSize) = Inr initial
          \<and> validateAndPriceParts pf (getProp initial ''partsList'') = Inr vps
          \<and> getProp bp' ''validatedParts'' = JArray (map jsValidatedLegoPart vps)
          \<and> getProp bp' ''realTotalCost'' = JNumber (engineSum pf 0 vps)
          \<and> (exactlyComputed pf 0 vps \<longrightarrow>
                getProp bp' ''realTotalCost'' = JNumber (\<Sum>part\<leftarrow>vps. realPrice part * quantity part))))
   \<and> (truthyString (API_KEY pf) \<longrightarrow>
       generateContent pf (imageRequest img mime size') = Inr respA \<longrightarrow>
       inlineImage respA = Some blob \<longrightarrow>
       generateContent pf (partsRequest blob size') = Inr respB \<longrightarrow>
      (\<exists>new. snd (generateLegoBlueprint pf img mime size') = Inr new
           \<and> snd (resizeLegoBlueprint pf img mime size') = Inr new
           \<and> (getProp new ''realTotalCost'' = JUndefined
                \<or> (\<exists>t payload. textualPayload respB = Some t
                      \<and> JSON_parse pf (cleanJsonString t) = Some (JObject payload)
                      \<and> getProp new ''realTotalCost'' = getProp payload ''realTotalCost''))))"
proof (intro conjI impI)
  assume f: "selectedFile st = Some file" and s: "legoBlueprint (handleConvertClick pf st) = Some bp"
  from s have "handleConvertClick_try pf file (selectedSize st) = Inr bp"
    unfolding handleConvertClick_stored [OF f] by (simp split: sum.splits)
  from handleConvertClick_try_Inr [OF this]
  obtain base64Image initial vps
    where i: "snd (generateLegoBlueprint pf base64Image (type' file) (selectedSize st)) = Inr initial"
      and v: "validateAndPriceParts pf (getProp initial ''partsList'') = Inr vps"
      and b: "bp = setProp ''realTotalCost'' (JNumber (engineSum pf 0 vps))
                     (setProp ''validatedParts'' (JArray (map jsValidatedLegoPart vps)) initial)"
    by blast
  from b have p: "getProp bp ''validatedParts'' = JArray (map jsValidatedLegoPart vps)"
    and c: "getProp bp ''realTotalCost'' = JNumber (engineSum pf 0 vps)"
    by (simp_all add: getProp_setProp)
  from c have "exactlyComputed pf 0 vps \<longrightarrow>
      getProp bp ''realTotalCost'' = JNumber (\<Sum>part\<leftarrow>vps. realPrice part * quantity part)"
    by (simp add: engineSum_exact)
  with i v p c
  show "\<exists>base64Image initial vps.
          snd (generateLegoBlueprint pf base64Image (type' file) (selectedSize st)) = Inr initial
          \<and> validateAndPriceParts pf (getProp initial ''partsList'') = Inr vps
          \<and> getProp bp ''validatedParts'' = JArray (map jsValidatedLegoPart vps)
          \<and> getProp bp ''realTotalCost'' = JNumber (engineSum pf 0 vps)
          \<and> (exactlyComputed pf 0 vps \<longrightarrow>
                getProp bp ''realTotalCost'' = JNumber (\<Sum>part\<leftarrow>vps. realPrice part * quantity part))"
    by blast
next
  assume a: "blueprints (handleResize pf originalImage rendered targetSize live) = blueprints live @ [bp']"
  with handleResize_blueprints [of pf originalImage rendered targetSize live]
  obtain file' where o: "originalImage = Some file'" and t: "handleResize_try pf file' targetSize = Inr bp'"
    by auto
  from handleResize_try_Inr [OF t]
  obtain base64Image initial vps
    where i: "snd (resizeLegoBlueprint pf base64Image (type' file') targetSize) = Inr initial"
      and v: "validateAndPriceParts pf (getProp initial ''partsList'') = Inr vps"
      and b: "bp' = setProp ''realTotalCost'' (JNumber (engineSum pf 0 vps))
                     (setProp ''validatedParts'' (JArray (map jsValidatedLegoPart vps)) initial)"
    by blast
  from b have p: "getProp bp' ''validatedParts'' = JArray (map jsValidatedLegoPart vps)"
    and c: "getProp bp' ''realTotalCost'' = JNumber (engineSum pf 0 vps)"
    by (simp_all add: getProp_setProp)
  from c have "exactlyComputed pf 0 vps \<longrightarrow>
      getProp bp' ''realTotalCost'' = JNumber (\<Sum>part\<leftarrow>vps. realPrice part * quantity part)"
    by (simp add: engineSum_exact)
  with o i v p c
  show "\<exists>file' base64Image initial vps. originalImage = Some file'
          \<and> snd (resizeLegoBlueprint pf base64Image (type' file') targetSize) = Inr initial
          \<and> validateAndPriceParts pf (getProp initial ''partsList'') = Inr vps
          \<and> getProp bp' ''validatedParts'' = JArray (map jsValidatedLegoPart vps)
          \<and> getProp bp' ''realTotalCost'' = JNumber (engineSum pf 0 vps)
          \<and> (exactlyComputed pf 0 vps \<longrightarrow>
                getProp bp' ''realTotalCost'' = JNumber (\<Sum>part\<leftarrow>vps. realPrice part * quantity part))"
    by blast
next
  assume run: "truthyString (API_KEY pf)"
      "generateContent pf (imageRequest img mime size') = Inr respA"
      "inlineImage respA = Some blob"
      "generateContent pf (partsRequest blob size') = Inr respB"
  let ?new = "case textualPayload respB of
              None \<Rightarrow> fallbackWith (dataUrl blob) size'
            | Some t \<Rightarrow>
                (case JSON_parse pf (cleanJsonString t) of
                   None \<Rightarrow> fallbackWith (dataUrl blob) size'
                 | Some v \<Rightarrow>
                     (case v of
                        JObject payload \<Rightarrow>
                          if hasPartsListAndTitle v
                          then setProp ''size'' (JString (sizeName size'))
                                 (setProp ''legoImageData'' (JString (dataUrl blob)) payload)
                          else fallbackWith (dataUrl blob) size'
                      | _ \<Rightarrow> fallbackWith (dataUrl blob) size'))"
  have "getProp ?new ''realTotalCost'' = JUndefined
        \<or> (\<exists>t payload. textualPayload respB = Some t
              \<and> JSON_parse pf (cleanJsonString t) = Some (JObject payload)
              \<and> getProp ?new ''realTotalCost'' = getProp payload ''realTotalCost'')"
    by (auto simp: getProp_fallbackBlueprint_realTotalCost getProp_setProp
          split: option.splits jsval.splits)
  with generateLegoBlueprint_stages [OF run] resizeLegoBlueprint_stages [OF run]
  show "\<exists>new. snd (generateLegoBlueprint pf img mime size') = Inr new
           \<and> snd (resizeLegoBlueprint pf img mime size') = Inr new
           \<and> (getProp new ''realTotalCost'' = JUndefined
                \<or> (\<exists>t payload. textualPayload respB = Some t
                      \<and> JSON_parse pf (cleanJsonString t) = Some (JObject payload)
                      \<and> getProp new ''realTotalCost'' = getProp payload ''realTotalCost''))"
    by blast
qed

section \<open>The concrete session, evaluated\<close>

lemma demo_pipeline_object:
  "snd (generateLegoBlueprint (demoPlatform imageResponse proseWithObject) img mime size')
     = Inr (objectBlueprint size')"
  "snd (resizeLegoBlueprint (demoPlatform imageResponse proseWithObject) img mime size')
     = Inr (objectBlueprint size')"
proof -
  have t: "textualPayload (textResponse proseWithObject) = Some proseWithObject"
    by (rule textualPayload_textResponse) (simp add: proseWithObject_def)
  show "snd (generateLegoBlueprint (demoPlatform imageResponse proseWithObject) img mime size')
     = Inr (objectBlueprint size')"
    unfolding generateLegoBlueprint_stages
                [OF demo_key demo_image_call inlineImage_imageResponse demo_parts_call] t
    by (simp add: clean_proseWithObject demo_parse demoParse_texts dataUrl_demoImage
          objectValue_def getProp_def objectBlueprint_def)
  show "snd (resizeLegoBlueprint (demoPlatform imageResponse proseWithObject) img mime size')
     = Inr (objectBlueprint size')"
    unfolding resizeLegoBlueprint_stages
                [OF demo_key demo_image_call inlineImage_imageResponse demo_parts_call] t
    by (simp add: clean_proseWithObject demo_parse demoParse_texts dataUrl_demoImage
          objectValue_def getProp_def objectBlueprint_def)
qed

lemma demo_priced:
  "demoPricing (getProp (objectBlueprint size') ''partsList'') = Inr [demoBrick]"
  "realPrice demoBrick * quantity demoBrick = 1"
  by (simp_all add: demoPricing_def objectBlueprint_def getProp_def demoBrick_def)

lemma double_facts:
  "doubleMultiply (1 / 2) 2 = 1"
  "doubleAdd 0 1 = 1"
  "doubleAdd 1 1 = 2"
  "doubleAdd 2 1 = 3"
  "doubleMultiply (3602879701896397 / 36028797018963968) 3 = 1351079888211149 / 4503599627370496"
  "doubleAdd 0 (1351079888211149 / 4503599627370496) = 1351079888211149 / 4503599627370496"
  "binary64 (1 / 10) = 3602879701896397 / 36028797018963968"
  by code_simp+

lemma demo_arithmetic:
  "numberAdd (demoPlatform a t) = doubleAdd"
  "numberMultiply (demoPlatform a t) = doubleMultiply"
  "realPrice demoBrick = 1 / 2"
  "quantity demoBrick = 2"
  by (simp_all add: demoPlatform_def demoBrick_def)

lemma demo_cost:
  "engineSum (demoPlatform a t) 0 [demoBrick] = 1"
  "engineSum (demoPlatform a t) 0 [demoBrick, demoBrick, demoBrick] = 3"
  "exactlyComputed (demoPlatform a t) 0 [demoBrick]"
  by (simp_all add: demo_arithmetic double_facts)

lemma dime_arithmetic:
  "numberAdd dimePlatform = doubleAdd"
  "numberMultiply dimePlatform = doubleMultiply"
  "validateAndPriceParts dimePlatform = dimePricing"
  "realPrice dime = 3602879701896397 / 36028797018963968"
  "quantity dime = 3"
  by (simp_all add: dimePlatform_def demoPlatform_def dime_def)

lemma dime_pipeline:
  "snd (generateLegoBlueprint dimePlatform img mime size') = Inr (objectBlueprint size')"
proof -
  have k: "truthyString (API_KEY dimePlatform)"
    by (simp add: dimePlatform_def demoPlatform_def)
  have a: "generateContent dimePlatform (imageRequest img mime size') = Inr imageResponse"
    by (simp add: dimePlatform_def demo_image_call)
  have b: "generateContent dimePlatform (partsRequest demoImage size') = Inr (textResponse proseWithObject)"
    by (simp add: dimePlatform_def demo_parts_call)
  have t: "textualPayload (textResponse proseWithObject) = Some proseWithObject"
    by (rule textualPayload_textResponse) (simp add: proseWithObject_def)
  have p: "JSON_parse dimePlatform = demoParse"
    by (simp add: dimePlatform_def demo_parse)
  show ?thesis
    unfolding generateLegoBlueprint_stages [OF k a inlineImage_imageResponse b] t
    by (simp add: clean_proseWithObject p demoParse_texts dataUrl_demoImage
          objectValue_def getProp_def objectBlueprint_def)
qed

lemma demo_try:
  "handleConvertClick_try (demoPlatform imageResponse proseWithObject) demoFile size'
     = Inr (pricedObjectBlueprint size')"
  "handleResize_try (demoPlatform imageResponse proseWithObject) demoFile size'
     = Inr (pricedObjectBlueprint size')"
proof -
  have r: "fileToBase64 demoFile = Inr ''data:image/jpeg;base64,/9j/4AAQ''"
    by (simp add: fileToBase64_def demoFile_def)
  have s: "setProp ''realTotalCost'' (JNumber 1)
             (setProp ''validatedParts'' (JArray [jsValidatedLegoPart demoBrick]) (objectBlueprint size'))
           = pricedObjectBlueprint size'"
    by (simp add: pricedObjectBlueprint_def objectBlueprint_def)
  show "handleConvertClick_try (demoPlatform imageResponse proseWithObject) demoFile size'
     = Inr (pricedObjectBlueprint size')"
    unfolding handleConvertClick_try_def Let_def r
    by (simp add: demo_pipeline_object demo_pricing demo_priced demo_arithmetic double_facts s)
  show "handleResize_try (demoPlatform imageResponse proseWithObject) demoFile size'
     = Inr (pricedObjectBlueprint size')"
    unfolding handleResize_try_def Let_def r
    by (simp add: demo_pipeline_object demo_pricing demo_priced demo_arithmetic double_facts s)
qed

lemma demo_conversion:
  "legoBlueprint (handleConvertClick (demoPlatform imageResponse proseWithObject) demoApp)
     = Some (pricedObjectBlueprint Medium)"
proof -
  have f: "selectedFile demoApp = Some demoFile" and z: "selectedSize demoApp = Medium"
    by (simp_all add: demoApp_def)
  show ?thesis
    unfolding handleConvertClick_stored [OF f] z by (simp add: demo_try)
qed

lemma getProp_pricedObjectBlueprint:
  "getProp (pricedObjectBlueprint size') ''size'' = JString (sizeName size')"
  "getProp (pricedObjectBlueprint size') ''realTotalCost'' = JNumber 1"
  "getProp (pricedObjectBlueprint size') ''validatedParts'' = JArray [jsValidatedLegoPart demoBrick]"
  by (simp_all add: pricedObjectBlueprint_def objectBlueprint_def getProp_def)

lemma demoStore_idle: "\<not> isResizing demoStore" "blueprints demoStore = [pricedObjectBlueprint Medium]"
  "currentIndex demoStore = 0"
  by (simp_all add: demoStore_def LegoResult_mount_def)

lemma demoStore2_eq:
  "demoStore2 = \<lparr>blueprints = [pricedObjectBlueprint Medium, pricedObjectBlueprint Large],
                 currentIndex = 1, isResizing = False, resizeProgress = [], resizeError = None\<rparr>"
  unfolding demoStore2_def handleResize_completed [OF demoStore_idle(1) demo_try(2)]
  by (simp add: demoStore_def LegoResult_mount_def)

lemma demo_no_image_try:
  "handleResize_try (demoPlatform (textResponse ''No image.'') proseWithObject) demoFile Large
     = Inl (Error ''AI failed to generate the Large LEGO image.'')"
proof -
  have r: "fileToBase64 demoFile = Inr ''data:image/jpeg;base64,/9j/4AAQ''"
    by (simp add: fileToBase64_def demoFile_def)
  show ?thesis
    unfolding handleResize_try_def r
    by (simp add: resizeLegoBlueprint_no_image [OF demo_key demo_image_call inlineImage_textResponse])
qed

theorem realTotalCost_is_sum_over_validatedParts_witness:
  "selectedFile demoApp = Some demoFile
   \<and> legoBlueprint (handleConvertClick (demoPlatform imageResponse proseWithObject) demoApp)
       = Some (pricedObjectBlueprint Medium)
   \<and> blueprints (handleResize (demoPlatform imageResponse proseWithObject) (Some demoFile)
                   demoStore Large demoStore)
       = blueprints demoStore @ [pricedObjectBlueprint Large]
   \<and> validateAndPriceParts (demoPlatform imageResponse proseWithObject)
        (getProp (objectBlueprint Large) ''partsList'') = Inr [demoBrick]
   \<and> exactlyComputed (demoPlatform imageResponse proseWithObject) 0 [demoBrick]
   \<and> getProp (pricedObjectBlueprint Large) ''validatedParts'' = JArray (map jsValidatedLegoPart [demoBrick])
   \<and> getProp (pricedObjectBlueprint Large) ''realTotalCost''
       = JNumber (engineSum (demoPlatform imageResponse proseWithObject) 0 [demoBrick])
   \<and> getProp (pricedObjectBlueprint Large) ''realTotalCost''
       = JNumber (\<Sum>part\<leftarrow>[demoBrick]. realPrice part * quantity part)
   \<and> snd (generateLegoBlueprint (demoPlatform imageResponse proseWithObject)
            ''data:image/jpeg;base64,/9j/4AAQ'' ''image/jpeg'' Medium)
       = Inr (objectBlueprint Medium)
   \<and> getProp (objectBlueprint Medium) ''realTotalCost'' = JUndefined"
proof -
  have a: "blueprints (handleResize (demoPlatform imageResponse proseWithObject) (Some demoFile)
                   demoStore Large demoStore)
       = blueprints demoStore @ [pricedObjectBlueprint Large]"
    unfolding handleResize_completed [OF demoStore_idle(1) demo_try(2)] by simp
  have f: "selectedFile demoApp = Some demoFile"
    by (simp add: demoApp_def)
  have v: "validateAndPriceParts (demoPlatform imageResponse proseWithObject)
        (getProp (objectBlueprint Large) ''partsList'') = Inr [demoBrick]"
    by (simp add: demo_pricing demo_priced)
  have c: "getProp (pricedObjectBlueprint Large) ''realTotalCost''
       = JNumber (engineSum (demoPlatform imageResponse proseWithObject) 0 [demoBrick])"
    "getProp (pricedObjectBlueprint Large) ''realTotalCost''
       = JNumber (\<Sum>part\<leftarrow>[demoBrick]. realPrice part * quantity part)"
    "getProp (pricedObjectBlueprint Large) ''validatedParts'' = JArray (map jsValidatedLegoPart [demoBrick])"
    by (simp_all add: getProp_pricedObjectBlueprint demo_arithmetic double_facts)
  have u: "getProp (objectBlueprint Medium) ''realTotalCost'' = JUndefined"
    by (simp add: objectBlueprint_def getProp_def)
  from realTotalCost_is_sum_over_validatedParts
            [of demoApp demoFile "demoPlatform imageResponse proseWithObject"
                "pricedObjectBlueprint Medium" "Some demoFile" demoStore Large demoStore
                "pricedObjectBlueprint Large"
                "''data:image/jpeg;base64,/9j/4AAQ''" "''image/jpeg''" Medium
                imageResponse demoImage "textResponse proseWithObject"]
       demo_key demo_image_call inlineImage_imageResponse demo_parts_call
  have "\<exists>new. snd (generateLegoBlueprint (demoPlatform imageResponse proseWithObject)
                   ''data:image/jpeg;base64,/9j/4AAQ'' ''image/jpeg'' Medium) = Inr new"
    by blast
  with f demo_conversion a v demo_cost(3) c u demo_pipeline_object(1)
  show ?thesis by simp
qed

text \<open>
  C4 as the specification words it fails in two ways. The sum is not the exact one: for one
  part at a price of 0.1 (the double nearest to it) and a quantity of 3, \<^verbatim>\<open>reduce\<close> yields
  the double 0.30000000000000004, which is not three times the price. And
  \<^verbatim>\<open>realTotalCost\<close> is not always undefined before validation: when Stage B answers with
  an object that has a \<^verbatim>\<open>realTotalCost\<close> of its own, the Blueprint the pipeline returns,
  which the caller holds before it calls the pricing service, has that \<^verbatim>\<open>realTotalCost\<close>.
\<close>

theorem realTotalCost_defined_before_validation:
  "handleConvertClick_try dimePlatform demoFile Medium
     = Inr (objectBlueprint Medium
            @ [(''validatedParts'', JArray [jsValidatedLegoPart dime]),
               (''realTotalCost'', JNumber (1351079888211149 / 4503599627370496))])
   \<and> realPrice dime = binary64 (1 / 10)
   \<and> quantity dime = 3
   \<and> realPrice dime * quantity dime = 10808639105689191 / 36028797018963968
   \<and> (1351079888211149 / 4503599627370496 :: rat) \<noteq> 10808639105689191 / 36028797018963968
   \<and> snd (generateLegoBlueprint (demoPlatform imageResponse echoText)
          ''data:image/jpeg;base64,/9j/4AAQ'' ''image/jpeg'' Medium)
     = Inr [(''title'', JString ''T''), (''partsList'', JArray []), (''size'', JString ''Medium''),
            (''legoImageData'', JString ''data:image/png;base64,iVBORw0KGgo=''),
            (''realTotalCost'', JNumber 5)]
   \<and> getProp [(''title'', JString ''T''), (''partsList'', JArray []), (''size'', JString ''Medium''),
               (''legoImageData'', JString ''data:image/png;base64,iVBORw0KGgo=''),
               (''realTotalCost'', JNumber 5)] ''realTotalCost''
     = JNumber 5
   \<and> JNumber 5 \<noteq> JUndefined"
proof -
  have t: "textualPayload (textResponse echoText) = Some echoText"
    by (rule textualPayload_textResponse) (simp add: echoText_def)
  have e: "snd (generateLegoBlueprint (demoPlatform imageResponse echoText)
          ''data:image/jpeg;base64,/9j/4AAQ'' ''image/jpeg'' Medium)
     = Inr [(''title'', JString ''T''), (''partsList'', JArray []), (''size'', JString ''Medium''),
            (''legoImageData'', JString ''data:image/png;base64,iVBORw0KGgo=''),
            (''realTotalCost'', JNumber 5)]"
    unfolding generateLegoBlueprint_stages
                [OF demo_key demo_image_call inlineImage_imageResponse demo_parts_call] t
    by (simp add: clean_echoText demo_parse demoParse_texts dataUrl_demoImage echoValue_def getProp_def)
  have r: "fileToBase64 demoFile = Inr ''data:image/jpeg;base64,/9j/4AAQ''"
    by (simp add: fileToBase64_def demoFile_def)
  have g: "snd (generateLegoBlueprint dimePlatform ''data:image/jpeg;base64,/9j/4AAQ'' (type' demoFile) Medium)
             = Inr (objectBlueprint Medium)"
    using dime_pipeline by simp
  have d: "handleConvertClick_try dimePlatform demoFile Medium
     = Inr (objectBlueprint Medium
            @ [(''validatedParts'', JArray [jsValidatedLegoPart dime]),
               (''realTotalCost'', JNumber (1351079888211149 / 4503599627370496))])"
    unfolding handleConvertClick_try_def Let_def r
    by (simp add: g dime_arithmetic dimePricing_def double_facts objectBlueprint_def)
  have p: "realPrice dime * quantity dime = 10808639105689191 / 36028797018963968"
    by (simp add: dime_def)
  have q: "realPrice dime = binary64 (1 / 10)" "quantity dime = 3"
    by (simp_all add: dime_arithmetic double_facts)
  from d p q e show ?thesis by (simp add: getProp_def)
qed

text \<open>
  C5. For every list of parts, every pricing authority and every way of forming the lookup
  reference, \<^verbatim>\<open>validate\<close> returns a list of the same length whose entry at each position
  is the validation of the input part at that position, with the part's \<^verbatim>\<open>quantity\<close> and
  \<^verbatim>\<open>pieceName\<close> unchanged.
\<close>

theorem validate_keeps_order_quantity_and_name:
  "length (validate authority reference partsList) = length partsList
   \<and> map quantity (validate authority reference partsList) = map quantity partsList
   \<and> map pieceName (validate authority reference partsList) = map pieceName partsList
   \<and> (\<forall>i<length partsList.
         validate authority reference partsList ! i = validatePart authority reference (partsList ! i)
         \<and> quantity (validate authority reference partsList ! i) = quantity (partsList ! i)
         \<and> pieceName (validate authority reference partsList ! i) = pieceName (partsList ! i))"
proof -
  have q: "quantity (validatePart authority reference part) = quantity part"
    and n: "pieceName (validatePart authority reference part) = pieceName part" for part
    by (simp_all add: validatePart_def Let_def LegoPart.defs ValidatedLegoPart.defs
          split: sum.split Resolution.split)
  show ?thesis
    by (simp add: validate_def q n)
qed

theorem validate_keeps_order_quantity_and_name_witness:
  "length (validate (\<lambda>pieceId color. if pieceId = ''3001'' then Inr (InStock 0.5) else Inl NonError)
             pieceId
             [\<lparr>pieceId = ''3001'', pieceName = ''2x4 Brick'', color = ''Red'', quantity = 10,
               estimatedPrice = 0.12\<rparr>,
              \<lparr>pieceId = ''9999'', pieceName = ''Unknown'', color = ''Blue'', quantity = 8,
               estimatedPrice = 0.10\<rparr>]) = 2
   \<and> map quantity (validate (\<lambda>pieceId color. if pieceId = ''3001'' then Inr (InStock 0.5) else Inl NonError)
             pieceId
             [\<lparr>pieceId = ''3001'', pieceName = ''2x4 Brick'', color = ''Red'', quantity = 10,
               estimatedPrice = 0.12\<rparr>,
              \<lparr>pieceId = ''9999'', pieceName = ''Unknown'', color = ''Blue'', quantity = 8,
               estimatedPrice = 0.10\<rparr>]) = [10, 8]
   \<and> map pieceName (validate (\<lambda>pieceId color. if pieceId = ''3001'' then Inr (InStock 0.5) else Inl NonError)
             pieceId
             [\<lparr>pieceId = ''3001'', pieceName = ''2x4 Brick'', color = ''Red'', quantity = 10,
               estimatedPrice = 0.12\<rparr>,
              \<lparr>pieceId = ''9999'', pieceName = ''Unknown'', color = ''Blue'', quantity = 8,
               estimatedPrice = 0.10\<rparr>]) = [''2x4 Brick'', ''Unknown'']"
  using validate_keeps_order_quantity_and_name
          [of "\<lambda>pieceId color. if pieceId = ''3001'' then Inr (InStock 0.5) else Inl NonError"
              pieceId
              "[\<lparr>pieceId = ''3001'', pieceName = ''2x4 Brick'', color = ''Red'', quantity = 10,
                 estimatedPrice = 0.12\<rparr>,
                \<lparr>pieceId = ''9999'', pieceName = ''Unknown'', color = ''Blue'', quantity = 8,
                 estimatedPrice = 0.10\<rparr>]"]
  by simp

section \<open>The list of versions\<close>

lemma handleResize_try_size:
  assumes "handleResize_try pf file' targetSize = Inr bp"
  shows "getProp bp ''size'' = JString (sizeName targetSize)"
proof -
  from handleResize_try_Inr [OF assms] obtain base64Image initial vps
    where i: "snd (resizeLegoBlueprint pf base64Image (type' file') targetSize) = Inr initial"
      and b: "bp = setProp ''realTotalCost'' (JNumber (engineSum pf 0 vps))
                    (setProp ''validatedParts'' (JArray (map jsValidatedLegoPart vps)) initial)"
    by blast
  from b have "getProp bp ''size'' = getProp initial ''size''"
    by (simp add: getProp_setProp)
  with resizeLegoBlueprint_size [OF i] show ?thesis by simp
qed

lemma isGenerated_iff:
  "isGenerated st size' \<longleftrightarrow> JString (sizeName size') \<in> set (map (\<lambda>bp. getProp bp ''size'') (blueprints st))"
  by (force simp: isGenerated_def list_ex_iff)

lemma reachable_sizesDistinct: "reachable st \<Longrightarrow> sizesDistinct (blueprints st)"
proof (induction rule: reachable.induct)
  case (mount pf a bp)
  show ?case by (simp add: sizesDistinct_def LegoResult_mount_def)
next
  case (select st index)
  then show ?case by (simp add: setCurrentIndex_def)
next
  case (resize st size' pf originalImage)
  from handleResize_blueprints [of pf originalImage st size' st]
  show ?case
  proof
    assume "blueprints (handleResize pf originalImage st size' st) = blueprints st"
    with resize.IH show ?thesis by simp
  next
    assume "\<exists>file' bp. originalImage = Some file' \<and> \<not> isResizing st
              \<and> handleResize_try pf file' size' = Inr bp
              \<and> blueprints (handleResize pf originalImage st size' st) = blueprints st @ [bp]"
    then obtain file' bp where t: "handleResize_try pf file' size' = Inr bp"
      and b: "blueprints (handleResize pf originalImage st size' st) = blueprints st @ [bp]"
      by blast
    from resize.hyps(3) have "getProp bp ''size'' \<notin> set (map (\<lambda>bp. getProp bp ''size'') (blueprints st))"
      unfolding handleResize_try_size [OF t] isGenerated_iff .
    with resize.IH show ?thesis
      unfolding b sizesDistinct_def by simp
  qed
qed

text \<open>
  C8. In every state of the version list that the user interface reaches, no two
  Blueprints have the same \<^verbatim>\<open>size\<close>. It is the disabled button that ensures it:
  \<^verbatim>\<open>handleResize\<close> itself, run for a size that is already present, appends a second
  Blueprint of that size.
\<close>

theorem store_has_one_blueprint_per_size:
  "(reachable st \<longrightarrow> sizesDistinct (blueprints st))
   \<and> (\<not> isResizing st' \<longrightarrow> handleResize_try pf file' size' = Inr bp \<longrightarrow> isGenerated st' size' \<longrightarrow>
        blueprints (handleResize pf (Some file') st' size' st') = blueprints st' @ [bp]
        \<and> \<not> sizesDistinct (blueprints (handleResize pf (Some file') st' size' st')))"
proof (intro conjI impI)
  assume "reachable st"
  then show "sizesDistinct (blueprints st)" by (rule reachable_sizesDistinct)
next
  assume "\<not> isResizing st'" and "handleResize_try pf file' size' = Inr bp"
  then show "blueprints (handleResize pf (Some file') st' size' st') = blueprints st' @ [bp]"
    by (simp add: handleResize_completed)
next
  assume i: "\<not> isResizing st'" and t: "handleResize_try pf file' size' = Inr bp"
    and g: "isGenerated st' size'"
  from g have "getProp bp ''size'' \<in> set (map (\<lambda>bp. getProp bp ''size'') (blueprints st'))"
    unfolding handleResize_try_size [OF t] isGenerated_iff .
  then show "\<not> sizesDistinct (blueprints (handleResize pf (Some file') st' size' st'))"
    unfolding handleResize_completed [OF i t] sizesDistinct_def by simp
qed

theorem store_has_one_blueprint_per_size_witness:
  "reachable demoStore2
   \<and> map (\<lambda>bp. getProp bp ''size'') (blueprints demoStore2) = [JString ''Medium'', JString ''Large'']
   \<and> sizesDistinct (blueprints demoStore2)
   \<and> \<not> isResizing demoStore2
   \<and> isGenerated demoStore2 Large
   \<and> map (\<lambda>bp. getProp bp ''size'')
        (blueprints (handleResize (demoPlatform imageResponse proseWithObject) (Some demoFile)
                       demoStore2 Large demoStore2))
       = [JString ''Medium'', JString ''Large'', JString ''Large'']
   \<and> \<not> sizesDistinct
          (blueprints (handleResize (demoPlatform imageResponse proseWithObject) (Some demoFile)
                         demoStore2 Large demoStore2))"
proof -
  have r0: "reachable demoStore"
    unfolding demoStore_def using demo_conversion by (rule reachable.mount)
  have g0: "\<not> isGenerated demoStore Large"
    by (simp add: isGenerated_def demoStore_idle getProp_pricedObjectBlueprint)
  have r: "reachable demoStore2"
    unfolding demoStore2_def using r0 demoStore_idle(1) g0 by (rule reachable.resize)
  have i: "\<not> isResizing demoStore2" and g: "isGenerated demoStore2 Large"
    by (simp_all add: demoStore2_eq isGenerated_def getProp_pricedObjectBlueprint)
  have s: "map (\<lambda>bp. getProp bp ''size'') (blueprints demoStore2) = [JString ''Medium'', JString ''Large'']"
    by (simp add: demoStore2_eq getProp_pricedObjectBlueprint)
  have b: "blueprints demoStore2 = [pricedObjectBlueprint Medium, pricedObjectBlueprint Large]"
    by (simp add: demoStore2_eq)
  show ?thesis
    using store_has_one_blueprint_per_size
            [of demoStore2 demoStore2 "demoPlatform imageResponse proseWithObject" demoFile Large
                "pricedObjectBlueprint Large"]
          r i g s demo_try(2) [of Large]
    by (simp add: b sizesDistinct_def getProp_pricedObjectBlueprint)
qed

section \<open>A resize whose Blueprint cannot be rendered\<close>

lemma fallback_conversion:
  "legoBlueprint (handleConvertClick (demoPlatform imageResponse ''I cannot help with that.'') demoApp)
     = Some fallbackVersion"
proof -
  have f: "selectedFile demoApp = Some demoFile" and z: "selectedSize demoApp = Medium"
    by (simp_all add: demoApp_def)
  have r: "fileToBase64 demoFile = Inr ''data:image/jpeg;base64,/9j/4AAQ''"
    by (simp add: fileToBase64_def demoFile_def)
  have t: "textualPayload (textResponse ''I cannot help with that.'') = Some ''I cannot help with that.''"
    by (simp add: textualPayload_textResponse)
  have c: "cleanJsonString ''I cannot help with that.'' = ''{}''"
    by (simp add: cleanJsonString_def)
  have g: "snd (generateLegoBlueprint (demoPlatform imageResponse ''I cannot help with that.'')
                  ''data:image/jpeg;base64,/9j/4AAQ'' (type' demoFile) Medium)
             = Inr (fallbackWith ''data:image/png;base64,iVBORw0KGgo='' Medium)"
    unfolding generateLegoBlueprint_stages
                [OF demo_key demo_image_call inlineImage_imageResponse demo_parts_call] t
    by (simp add: c demo_parse demoParse_texts getProp_def dataUrl_demoImage)
  have v: "demoPricing (getProp (fallbackWith ''data:image/png;base64,iVBORw0KGgo='' Medium) ''partsList'')
             = Inr [demoBrick, demoBrick, demoBrick]"
    by (simp add: fallbackWith_def getProp_setProp)
       (simp add: getProp_def fallbackBlueprint_def demoPricing_def)
  have s: "setProp ''realTotalCost'' (JNumber 3)
             (setProp ''validatedParts''
                (JArray [jsValidatedLegoPart demoBrick, jsValidatedLegoPart demoBrick,
                         jsValidatedLegoPart demoBrick])
                (fallbackWith ''data:image/png;base64,iVBORw0KGgo='' Medium))
           = fallbackVersion"
    by (simp add: fallbackVersion_def fallbackWith_def fallbackBlueprint_def)
  have "handleConvertClick_try (demoPlatform imageResponse ''I cannot help with that.'') demoFile Medium
          = Inr fallbackVersion"
    unfolding handleConvertClick_try_def Let_def r
    by (simp add: g demo_pricing v demo_arithmetic double_facts s)
  then show ?thesis
    unfolding handleConvertClick_stored [OF f] z by simp
qed

lemma readyStore_facts:
  "\<not> isResizing readyStore"
  "blueprints readyStore = [fallbackVersion]"
  "currentIndex readyStore = 0"
  by (simp_all add: readyStore_def LegoResult_mount_def)

lemma PartItem_renders_demoBrick: "PartItem_renders (jsValidatedLegoPart demoBrick)"
  by (simp add: jsValidatedLegoPart_def demoBrick_def getProp_def)

lemma fallbackVersion_renders: "PartsBreakdown_renders fallbackVersion"
  by (simp add: PartsBreakdown_renders_def fallbackVersion_def fallbackWith_def
        fallbackBlueprint_def getProp_def PartItem_renders_demoBrick)

lemma pricedObjectBlueprint_no_estimatedCost:
  "getProp (pricedObjectBlueprint size') ''estimatedCost'' = JUndefined"
  by (simp add: pricedObjectBlueprint_def objectBlueprint_def getProp_def)

lemma readyStore_resized:
  "handleResize (demoPlatform imageResponse proseWithObject) (Some demoFile) readyStore Large readyStore
     = \<lparr>blueprints = [fallbackVersion, pricedObjectBlueprint Large], currentIndex = 1,
        isResizing = False, resizeProgress = [], resizeError = None\<rparr>"
  unfolding handleResize_completed [OF readyStore_facts(1) demo_try(2)]
  by (simp add: readyStore_def LegoResult_mount_def)

text \<open>
  C9 does not hold of the program. \<^verbatim>\<open>handleResize\<close> appends the new Blueprint and leaves
  the earlier ones as they were, but the new Blueprint is then the current one and is
  rendered at once, and the pipeline accepts parsed objects that \<^verbatim>\<open>PartsBreakdown\<close> cannot
  render: its check asks for \<^verbatim>\<open>partsList\<close> and \<^verbatim>\<open>title\<close> only, and the renderer calls
  \<^verbatim>\<open>blueprint.estimatedCost.toFixed(2)\<close>. In the run below a conversion has stored the
  priced fallback Blueprint, which is shown; a resize to \<^verbatim>\<open>Large\<close> is answered with the
  object of \<open>proseWithObject\<close>, which has no \<^verbatim>\<open>estimatedCost\<close>. The resize completes and
  appends its Blueprint; the render throws and the tree is unmounted, so the earlier
  version can no longer be selected.
\<close>

theorem resize_unmounts_when_new_blueprint_cannot_render:
  "legoBlueprint (handleConvertClick (demoPlatform imageResponse ''I cannot help with that.'') demoApp)
     = Some fallbackVersion
   \<and> LegoResult_commit readyStore = Some readyStore
   \<and> handleResize_try (demoPlatform imageResponse proseWithObject) demoFile Large
       = Inr (pricedObjectBlueprint Large)
   \<and> blueprints (handleResize (demoPlatform imageResponse proseWithObject) (Some demoFile)
                   readyStore Large readyStore)
       = [fallbackVersion, pricedObjectBlueprint Large]
   \<and> resizeError (handleResize (demoPlatform imageResponse proseWithObject) (Some demoFile)
                   readyStore Large readyStore) = None
   \<and> getProp (pricedObjectBlueprint Large) ''estimatedCost'' = JUndefined
   \<and> LegoResult_commit (handleResize (demoPlatform imageResponse proseWithObject) (Some demoFile)
                          readyStore Large readyStore) = None"
proof -
  have c0: "LegoResult_commit readyStore = Some readyStore"
    by (simp add: LegoResult_commit_def LegoResult_renders_def readyStore_facts at_index_def
          fallbackVersion_renders)
  have n: "\<not> PartsBreakdown_renders (pricedObjectBlueprint Large)"
    by (simp add: PartsBreakdown_renders_def pricedObjectBlueprint_no_estimatedCost)
  have c1: "LegoResult_commit (handleResize (demoPlatform imageResponse proseWithObject) (Some demoFile)
                          readyStore Large readyStore) = None"
    unfolding readyStore_resized
    by (simp add: LegoResult_commit_def LegoResult_renders_def at_index_def n)
  from fallback_conversion c0 demo_try(2) [of Large] c1 pricedObjectBlueprint_no_estimatedCost [of Large]
  show ?thesis by (simp add: readyStore_resized)
qed

text \<open>
  C10 does not hold of the program, by the same defect. After the resize of the run above
  the selection is the index of the appended Blueprint, which is the current one; but
  \<^verbatim>\<open>PartsBreakdown\<close> throws while rendering it, so what is shown after the resize is not the
  new version: nothing is.
\<close>

theorem new_version_selected_but_not_shown:
  "currentIndex readyStore = 0
   \<and> currentIndex (handleResize (demoPlatform imageResponse proseWithObject) (Some demoFile)
                    readyStore Large readyStore) = 1
   \<and> currentBlueprint (handleResize (demoPlatform imageResponse proseWithObject) (Some demoFile)
                    readyStore Large readyStore) = Some (pricedObjectBlueprint Large)
   \<and> hasToFixed (getProp (pricedObjectBlueprint Large) ''estimatedCost'') = False
   \<and> PartsBreakdown_renders (pricedObjectBlueprint Large) = False
   \<and> LegoResult_renders (handleResize (demoPlatform imageResponse proseWithObject) (Some demoFile)
                    readyStore Large readyStore) = False"
proof -
  have n: "\<not> PartsBreakdown_renders (pricedObjectBlueprint Large)"
    by (simp add: PartsBreakdown_renders_def pricedObjectBlueprint_no_estimatedCost)
  show ?thesis
    unfolding readyStore_resized
    by (simp add: readyStore_facts currentBlueprint_def LegoResult_renders_def at_index_def n
          pricedObjectBlueprint_no_estimatedCost)
qed

end
